theory Spec2Isabelle
  imports Main "HOL-Library.Word"
begin

unbundle bit_operations_syntax

section \<open>Bytes, hashes and Go's copy\<close>

type_synonym byte = "8 word"
type_synonym bytes = "byte list"

text \<open>
  An address is a \<^verbatim>\<open>[20]byte\<close>, a hash a \<^verbatim>\<open>[32]byte\<close>; both are byte lists here.
  Keccak-256 (\<^verbatim>\<open>seth.HashBytes\<close>) is a cryptographic primitive outside the repository's
  sources: every function that hashes takes it as its first argument \<open>H\<close>.
\<close>

type_synonym hashfn = "bytes \<Rightarrow> bytes"

text \<open>Go's builtin \<^verbatim>\<open>copy(dst, src)\<close>: the first \<open>min (len dst) (len src)\<close> cells of
  \<open>dst\<close> are overwritten; the value is \<open>dst\<close> afterwards.\<close>

definition copy_bytes :: "'a list \<Rightarrow> 'a list \<Rightarrow> 'a list" where
  "copy_bytes dst src = take (length dst) src @ drop (length src) dst"

text \<open>A nil or absent byte slice behaves as the empty slice under \<^verbatim>\<open>len\<close> and \<^verbatim>\<open>copy\<close>.\<close>

definition slice_of :: "bytes option \<Rightarrow> bytes" where
  "slice_of v = (case v of None \<Rightarrow> [] | Some b \<Rightarrow> b)"

text \<open>\<^verbatim>\<open>big.Int.SetBytes\<close>: a big-endian unsigned integer.\<close>

definition be_nat :: "bytes \<Rightarrow> nat" where
  "be_nat bs = foldl (\<lambda>acc b. acc * 256 + unat b) 0 bs"

text \<open>\<^verbatim>\<open>big.Int.Bytes\<close>: the big-endian bytes of the absolute value, without leading zeros.\<close>

function be_bytes :: "nat \<Rightarrow> bytes" where
  "be_bytes n = (if n = 0 then [] else be_bytes (n div 256) @ [of_nat (n mod 256)])"
  by pat_completeness auto
termination
  by (relation "measure id") auto

declare be_bytes.simps [simp del]

text \<open>\<^verbatim>\<open>binary.BigEndian.Uint64\<close> and \<^verbatim>\<open>PutUint64\<close> on the first eight cells,
  \<^verbatim>\<open>binary.LittleEndian.PutUint64\<close> on an eight-byte buffer.\<close>

definition be_uint64 :: "bytes \<Rightarrow> 64 word" where
  "be_uint64 bs = of_nat (be_nat (take 8 bs))"

definition be_put_uint64 :: "64 word \<Rightarrow> bytes" where
  "be_put_uint64 w = map (\<lambda>i. ucast (drop_bit (8 * (7 - i)) w)) [0..<8]"

definition le_put_uint64 :: "64 word \<Rightarrow> bytes" where
  "le_put_uint64 w = map (\<lambda>i. ucast (drop_bit (8 * i) w)) [0..<8]"

text \<open>Runtime panics, and the errors that functions return. \<open>ResliceBeyondLength\<close> is not
  a panic of its own: it marks a re-slice of the logs above their current length, which a
  list cannot follow (Go brings the truncated entries of the backing array back, and
  panics only above its capacity).\<close>

datatype panic =
    NoSuchSnapshot
  | SetNonceMissingAccount
  | SliceBounds
  | NilDereference
  | TreePrecondition
  | UnmarshalFailure
  | NotImplemented
  | ResliceBeyondLength

datatype error =
    ErrSyntax
  | ErrRange
  | ErrParams nat nat
  | ErrFilterRange "64 word" "64 word"
  | ErrBadFilterId "64 word"
  | ErrEvm string
  | ErrJson string

definition bindE :: "panic + 'a \<Rightarrow> ('a \<Rightarrow> panic + 'b) \<Rightarrow> panic + 'b" where
  "bindE m f = (case m of Inl p \<Rightarrow> Inl p | Inr x \<Rightarrow> f x)"

section \<open>Tree: the versioned key-value store\<close>

text \<open>
  Modelled from the spec: the Tree type and its operations (Get, Insert, Delete, Snapshot,
  Rollback, CopyAt) are not among the repository's sources. The spec's canonical design is
  followed: a current logical map paired with an append-only journal of
  (key, old value or tombstone); a snapshot handle is the journal length; rollback undoes the
  entries above the handle, newest first, and truncates the journal; a rollback to a negative
  handle or to one above the current version is a precondition error; deleting an absent key
  is a no-op that pushes no journal entry; a copy starts with an empty journal.
\<close>

record Tree =
  contents :: "bytes \<rightharpoonup> bytes"
  journal :: "(bytes \<times> bytes option) list"

definition empty_Tree :: Tree where
  "empty_Tree = \<lparr>contents = Map.empty, journal = []\<rparr>"

definition Get :: "Tree \<Rightarrow> bytes \<Rightarrow> bytes option" where
  "Get t k = contents t k"

definition Insert :: "Tree \<Rightarrow> bytes \<Rightarrow> bytes \<Rightarrow> Tree" where
  "Insert t k v = \<lparr>contents = (contents t)(k \<mapsto> v), journal = journal t @ [(k, contents t k)]\<rparr>"

definition Delete :: "Tree \<Rightarrow> bytes \<Rightarrow> Tree" where
  "Delete t k =
     (case contents t k of
        None \<Rightarrow> t
      | Some v \<Rightarrow> \<lparr>contents = (contents t)(k := None), journal = journal t @ [(k, Some v)]\<rparr>)"

definition Snapshot_Tree :: "Tree \<Rightarrow> int" where
  "Snapshot_Tree t = int (length (journal t))"

text \<open>Undoing journal entries, given newest first.\<close>

fun undo :: "(bytes \<times> bytes option) list \<Rightarrow> (bytes \<rightharpoonup> bytes) \<Rightarrow> (bytes \<rightharpoonup> bytes)" where
  "undo [] m = m"
| "undo ((k, old) # es) m = undo es (m(k := old))"

definition Rollback :: "Tree \<Rightarrow> int \<Rightarrow> panic + Tree" where
  "Rollback t h =
     (if h < 0 \<or> int (length (journal t)) < h then Inl TreePrecondition
      else Inr \<lparr>contents = undo (rev (drop (nat h) (journal t))) (contents t),
                journal = take (nat h) (journal t)\<rparr>)"

definition CopyAt :: "Tree \<Rightarrow> int \<Rightarrow> Tree" where
  "CopyAt t h = \<lparr>contents = undo (rev (drop (nat h) (journal t))) (contents t), journal = []\<rparr>"

section \<open>Accounts\<close>

text \<open>\<^verbatim>\<open>type Account [32 + 8 + 1]byte\<close>: balance, nonce, suicide flag.\<close>

type_synonym Account = bytes

definition zero_Account :: Account where
  "zero_Account = replicate 41 0"

definition Balance :: "Account \<Rightarrow> int" where
  "Balance a = int (be_nat (take 32 a))"

text \<open>\<^verbatim>\<open>a[:32-len(buf)]\<close> panics when the absolute value needs more than 32 bytes.\<close>

definition SetBalance :: "Account \<Rightarrow> int \<Rightarrow> panic + Account" where
  "SetBalance a v =
     (let buf = be_bytes (nat \<bar>v\<bar>) in
      if 32 < length buf then Inl SliceBounds
      else Inr (replicate (32 - length buf) 0 @ buf @ drop 32 a))"

definition Nonce :: "Account \<Rightarrow> 64 word" where
  "Nonce a = be_uint64 (drop 32 a)"

definition SetNonce_Account :: "Account \<Rightarrow> 64 word \<Rightarrow> Account" where
  "SetNonce_Account a n = take 32 a @ be_put_uint64 n @ drop 40 a"

definition Suicided :: "Account \<Rightarrow> bool" where
  "Suicided a = (a ! 40 \<noteq> 0)"

definition SetSuicided :: "Account \<Rightarrow> bool \<Rightarrow> Account" where
  "SetSuicided a t = (if t then a[40 := 1] else a[40 := 0])"

text \<open>\<^verbatim>\<open>CodeTree\<close> and \<^verbatim>\<open>AccountTree\<close> embed a Tree.\<close>

definition GetCode_Tree :: "Tree \<Rightarrow> bytes \<Rightarrow> bytes option" where
  "GetCode_Tree c addr = Get c addr"

definition PutCode :: "Tree \<Rightarrow> bytes \<Rightarrow> bytes \<Rightarrow> Tree" where
  "PutCode c addr code = Insert c addr code"

definition GetAccount :: "Tree \<Rightarrow> bytes \<Rightarrow> Account \<times> bool" where
  "GetAccount a addr =
     (let v = slice_of (Get a addr);
          acct = copy_bytes zero_Account v
      in (acct, length v = length acct))"

definition SetAccount :: "Tree \<Rightarrow> bytes \<Rightarrow> Account \<Rightarrow> Tree" where
  "SetAccount a addr acct = Insert a addr acct"

section \<open>Logs, blocks, transactions and receipts\<close>

text \<open>\<^verbatim>\<open>types.Log\<close> of go-ethereum, with the fields that \<^verbatim>\<open>l2l\<close> reads.\<close>

record Log =
  l_Address :: bytes
  l_Topics :: "bytes list"
  l_Data :: bytes
  l_BlockNumber :: "64 word"
  l_TxHash :: bytes
  l_TxIndex :: "64 word"
  l_BlockHash :: bytes
  l_Index :: "64 word"
  l_Removed :: bool

text \<open>\<^verbatim>\<open>seth.Log\<close>, with the fields that \<^verbatim>\<open>l2l\<close> writes; pointer fields are options.\<close>

record seth_Log =
  sl_Address :: bytes
  sl_Topics :: "bytes list"
  sl_Data :: bytes
  sl_BlockHash :: "bytes option"
  sl_TxHash :: "bytes option"
  sl_LogIndex :: "64 word option"
  sl_TxIndex :: "64 word option"
  sl_BlockNumber :: "64 word option"
  sl_Removed :: bool

definition l2l :: "Log \<Rightarrow> seth_Log" where
  "l2l l = \<lparr>sl_Address = l_Address l,
            sl_Topics = map (\<lambda>t. t) (l_Topics l),
            sl_Data = l_Data l,
            sl_BlockHash = Some (l_BlockHash l),
            sl_TxHash = Some (l_TxHash l),
            sl_LogIndex = Some (l_Index l),
            sl_TxIndex = Some (l_TxIndex l),
            sl_BlockNumber = Some (l_BlockNumber l),
            sl_Removed = l_Removed l\<rparr>"

definition lconv :: "Log list \<Rightarrow> seth_Log list" where
  "lconv l = map l2l l"

text \<open>\<^verbatim>\<open>seth.Block\<close>: \<^verbatim>\<open>Number\<close>, \<^verbatim>\<open>Hash\<close> and the difficulties are pointers;
  \<^verbatim>\<open>Transactions\<close> is a list of raw JSON messages.\<close>

record Block =
  b_Number :: "64 word option"
  b_Hash :: "bytes option"
  b_Parent :: bytes
  b_Miner :: bytes
  b_Timestamp :: "64 word"
  b_GasLimit :: "64 word"
  b_GasUsed :: "64 word"
  b_Difficulty :: "int option"
  b_TotalDifficulty :: "int option"
  b_Transactions :: "bytes list"

record Transaction =
  tx_From :: "bytes option"
  tx_To :: "bytes option"
  tx_Gas :: "64 word"
  tx_GasPrice :: int
  tx_Value :: int
  tx_Input :: bytes
  tx_Hash :: bytes
  tx_TxIndex :: "64 word option"
  tx_Block :: bytes
  tx_BlockNumber :: "64 word"

record Receipt =
  rx_Hash :: bytes
  rx_Index :: "64 word"
  rx_GasUsed :: "64 word"
  rx_Cumulative :: "64 word"
  rx_Logs :: "seth_Log list"
  rx_Address :: "bytes option"

section \<open>State and the StateDB adapter\<close>

record statesnap =
  sn_refund :: int
  sn_accounts :: int
  sn_code :: int
  sn_state :: int
  sn_loglen :: int
  sn_txs :: int
  sn_rxs :: int

text \<open>The \<^verbatim>\<open>Trace\<close> callback only reports calls and is left out.\<close>

record State =
  refund :: int
  Pending :: "Block option"
  Accounts :: Tree
  Code :: Tree
  Storage :: Tree
  Preimage :: Tree
  Transactions :: Tree
  Receipts :: Tree
  Blocks :: Tree
  logs :: "Log list"
  snapshots :: "statesnap list"

definition CreateAccount :: "State \<Rightarrow> bytes \<Rightarrow> State" where
  "CreateAccount s addr = s\<lparr>Accounts := SetAccount (Accounts s) addr zero_Account\<rparr>"

definition SubBalance :: "State \<Rightarrow> bytes \<Rightarrow> int \<Rightarrow> panic + State" where
  "SubBalance s addr v =
     (let (acct, ok) = GetAccount (Accounts s) addr;
          b = Balance acct - v;
          newacct = copy_bytes zero_Account acct
      in bindE (SetBalance newacct b)
           (\<lambda>newacct. Inr (s\<lparr>Accounts := SetAccount (Accounts s) addr newacct\<rparr>)))"

definition AddBalance :: "State \<Rightarrow> bytes \<Rightarrow> int \<Rightarrow> panic + State" where
  "AddBalance s addr v =
     (let (acct, ok) = GetAccount (Accounts s) addr;
          b = Balance acct + v;
          newacct = copy_bytes zero_Account acct
      in bindE (SetBalance newacct b)
           (\<lambda>newacct. Inr (s\<lparr>Accounts := SetAccount (Accounts s) addr newacct\<rparr>)))"

definition GetBalance :: "State \<Rightarrow> bytes \<Rightarrow> int" where
  "GetBalance s addr = (let (acct, ok) = GetAccount (Accounts s) addr in Balance acct)"

definition GetNonce :: "State \<Rightarrow> bytes \<Rightarrow> 64 word" where
  "GetNonce s addr = (let (acct, ok) = GetAccount (Accounts s) addr in Nonce acct)"

definition SetNonce :: "State \<Rightarrow> bytes \<Rightarrow> 64 word \<Rightarrow> panic + State" where
  "SetNonce s addr n =
     (let (acct, ok) = GetAccount (Accounts s) addr in
      if \<not> ok then Inl SetNonceMissingAccount
      else Inr (s\<lparr>Accounts := SetAccount (Accounts s) addr (SetNonce_Account acct n)\<rparr>))"

definition GetCode :: "State \<Rightarrow> bytes \<Rightarrow> bytes option" where
  "GetCode s addr = GetCode_Tree (Code s) addr"

definition GetCodeHash :: "hashfn \<Rightarrow> State \<Rightarrow> bytes \<Rightarrow> bytes" where
  "GetCodeHash H s addr = H (slice_of (GetCode s addr))"

definition SetCode :: "State \<Rightarrow> bytes \<Rightarrow> bytes \<Rightarrow> State" where
  "SetCode s addr data = s\<lparr>Code := PutCode (Code s) addr data\<rparr>"

definition GetCodeSize :: "State \<Rightarrow> bytes \<Rightarrow> nat" where
  "GetCodeSize s addr = length (slice_of (GetCode s addr))"

definition AddRefund :: "State \<Rightarrow> int \<Rightarrow> State" where
  "AddRefund s v = s\<lparr>refund := refund s + v\<rparr>"

definition GetRefund :: "State \<Rightarrow> int" where
  "GetRefund s = refund s"

definition stateKey :: "hashfn \<Rightarrow> bytes \<Rightarrow> bytes \<Rightarrow> bytes" where
  "stateKey H addr hash =
     (let v = replicate (20 + 32) 0;
          v = copy_bytes v addr;
          v = take 20 v @ copy_bytes (drop 20 v) hash
      in H v)"

definition zerohash :: bytes where
  "zerohash = replicate 32 0"

definition GetState :: "hashfn \<Rightarrow> State \<Rightarrow> bytes \<Rightarrow> bytes \<Rightarrow> bytes" where
  "GetState H s addr hash =
     (let h = stateKey H addr hash;
          v = slice_of (Get (Storage s) h)
      in copy_bytes zerohash v)"

definition SetState :: "hashfn \<Rightarrow> State \<Rightarrow> bytes \<Rightarrow> bytes \<Rightarrow> bytes \<Rightarrow> State" where
  "SetState H s addr hash val =
     (let h = stateKey H addr hash in
      if val = zerohash then s\<lparr>Storage := Delete (Storage s) h\<rparr>
      else s\<lparr>Storage := Insert (Storage s) h val\<rparr>)"

definition Exist :: "State \<Rightarrow> bytes \<Rightarrow> bool" where
  "Exist s addr = (let (acct, ok) = GetAccount (Accounts s) addr in ok)"

definition Empty :: "State \<Rightarrow> bytes \<Rightarrow> bool" where
  "Empty s addr =
     (let (acct, ok) = GetAccount (Accounts s) addr;
          bal = Balance acct
      in \<not> ok \<or> (Nonce acct = 0 \<and> bal = 0 \<and> length (slice_of (GetCode_Tree (Code s) addr)) = 0))"

text \<open>\<^verbatim>\<open>Suicide\<close> returns its boolean and the state it leaves.\<close>

definition Suicide :: "State \<Rightarrow> bytes \<Rightarrow> bool \<times> State" where
  "Suicide s addr =
     (let (acct, ok) = GetAccount (Accounts s) addr in
      if \<not> ok \<or> Suicided acct then (False, s)
      else (True, s\<lparr>Accounts := SetAccount (Accounts s) addr (SetSuicided acct True)\<rparr>))"

definition HasSuicided :: "State \<Rightarrow> bytes \<Rightarrow> bool" where
  "HasSuicided s addr = (let (acct, ok) = GetAccount (Accounts s) addr in ok \<and> Suicided acct)"

text \<open>
  \<^verbatim>\<open>RevertToSnapshot\<close>: the final statement \<^verbatim>\<open>snaps = snaps[:v]\<close> assigns to the local
  variable \<^verbatim>\<open>snaps\<close> only, so \<^verbatim>\<open>s.snapshots\<close> is left as it was.
  \<^verbatim>\<open>s.logs[:ns.loglen]\<close> is taken on a list: a negative length panics, a length above the
  current one is reported as \<open>ResliceBeyondLength\<close>.
\<close>

definition RevertToSnapshot :: "State \<Rightarrow> int \<Rightarrow> panic + State" where
  "RevertToSnapshot s v =
     (let snaps = snapshots s in
      if int (length snaps) \<le> v \<or> v < 0 then Inl NoSuchSnapshot
      else
        let ns = snaps ! nat v in
        bindE (Rollback (Accounts s) (sn_accounts ns)) (\<lambda>acc.
        bindE (Rollback (Code s) (sn_code ns)) (\<lambda>cod.
        bindE (Rollback (Storage s) (sn_state ns)) (\<lambda>sto.
        bindE (Rollback (Transactions s) (sn_txs ns)) (\<lambda>txs.
        bindE (Rollback (Receipts s) (sn_rxs ns)) (\<lambda>rxs.
          if sn_loglen ns < 0 then Inl SliceBounds
          else if int (length (logs s)) < sn_loglen ns then Inl ResliceBeyondLength
          else
            let snaps = take (nat v) snaps in
            Inr (s\<lparr>refund := sn_refund ns, Accounts := acc, Code := cod, Storage := sto,
                   Transactions := txs, Receipts := rxs,
                   logs := take (nat (sn_loglen ns)) (logs s)\<rparr>)))))))"

text \<open>\<^verbatim>\<open>Snapshot\<close> returns the handle and the state with the descriptor pushed.\<close>

definition Snapshot :: "State \<Rightarrow> int \<times> State" where
  "Snapshot s =
     (let snap = \<lparr>sn_refund = refund s,
                  sn_accounts = Snapshot_Tree (Accounts s),
                  sn_code = Snapshot_Tree (Code s),
                  sn_state = Snapshot_Tree (Storage s),
                  sn_loglen = int (length (logs s)),
                  sn_txs = Snapshot_Tree (Transactions s),
                  sn_rxs = Snapshot_Tree (Receipts s)\<rparr>;
          s' = s\<lparr>snapshots := snapshots s @ [snap]\<rparr>
      in (int (length (snapshots s')) - 1, s'))"

definition AddLog :: "State \<Rightarrow> Log \<Rightarrow> State" where
  "AddLog s l = s\<lparr>logs := logs s @ [l]\<rparr>"

definition AddPreimage :: "State \<Rightarrow> bytes \<Rightarrow> bytes \<Rightarrow> State" where
  "AddPreimage s h b = s\<lparr>Preimage := Insert (Preimage s) h b\<rparr>"

text \<open>\<^verbatim>\<open>atSnap\<close> fills \<open>dst\<close>; a negative \<open>n\<close> leaves it as it is. Indexing
  \<^verbatim>\<open>s.snapshots[n]\<close> beyond the stack panics; the logs are sliced on a list, as in
  \<^verbatim>\<open>RevertToSnapshot\<close>.\<close>

definition atSnap :: "State \<Rightarrow> int \<Rightarrow> State \<Rightarrow> panic + State" where
  "atSnap s n dst =
     (if n < 0 then Inr dst
      else if int (length (snapshots s)) \<le> n then Inl SliceBounds
      else
        let ns = snapshots s ! nat n in
        if sn_loglen ns < 0 then Inl SliceBounds
        else if int (length (logs s)) < sn_loglen ns then Inl ResliceBeyondLength
        else Inr (dst\<lparr>refund := refund s,
                      Accounts := CopyAt (Accounts s) (sn_accounts ns),
                      Code := CopyAt (Code s) (sn_code ns),
                      Storage := CopyAt (Storage s) (sn_state ns),
                      Transactions := CopyAt (Transactions s) (sn_txs ns),
                      Receipts := CopyAt (Receipts s) (sn_rxs ns),
                      logs := take (nat (sn_loglen ns)) (logs s),
                      snapshots := take (nat n) (snapshots s)\<rparr>))"

text \<open>The zero value of \<^verbatim>\<open>State\<close>, as \<^verbatim>\<open>new(Chain)\<close> allocates it.\<close>

definition zero_State :: State where
  "zero_State = \<lparr>refund = 0, Pending = None, Accounts = empty_Tree, Code = empty_Tree,
     Storage = empty_Tree, Preimage = empty_Tree, Transactions = empty_Tree,
     Receipts = empty_Tree, Blocks = empty_Tree, logs = [], snapshots = []\<rparr>"

section \<open>Block tags and request parameters\<close>

text \<open>\<^verbatim>\<open>strconv.ParseInt(s, 10, 64)\<close>: an optional sign, then \<^verbatim>\<open>ParseUint\<close> on the rest,
  which scans the characters in order: a character that is not a decimal digit is a syntax
  error, a value that leaves \<^verbatim>\<open>uint64\<close> is a range error, whichever comes first. After a
  range error \<^verbatim>\<open>ParseInt\<close> goes on with the largest \<^verbatim>\<open>uint64\<close> and checks the range of
  \<^verbatim>\<open>int64\<close>.\<close>

definition digit_of :: "char \<Rightarrow> nat option" where
  "digit_of c = (let n = (of_char c :: nat) in if 48 \<le> n \<and> n \<le> 57 then Some (n - 48) else None)"

fun parse_digits :: "nat \<Rightarrow> string \<Rightarrow> error + nat" where
  "parse_digits n [] = Inr n"
| "parse_digits n (c # cs) =
     (case digit_of c of
        None \<Rightarrow> Inl ErrSyntax
      | Some d \<Rightarrow>
          if (2 ^ 64 - 1) div 10 + 1 \<le> n then Inl ErrRange
          else if 2 ^ 64 - 1 < n * 10 + d then Inl ErrRange
          else parse_digits (n * 10 + d) cs)"

definition ParseInt :: "string \<Rightarrow> error + 64 word" where
  "ParseInt s =
     (if s = [] then Inl ErrSyntax
      else
        let neg = (hd s = CHR ''-'');
            ds = (if hd s = CHR ''+'' \<or> hd s = CHR ''-'' then tl s else s)
        in if ds = [] then Inl ErrSyntax
           else case parse_digits 0 ds of
                  Inl ErrSyntax \<Rightarrow> Inl ErrSyntax
                | r \<Rightarrow>
                    let un = (case r of Inl err \<Rightarrow> 2 ^ 64 - 1 | Inr n \<Rightarrow> n) in
                    if \<not> neg \<and> 2 ^ 63 \<le> un then Inl ErrRange
                    else if neg \<and> 2 ^ 63 < un then Inl ErrRange
                    else Inr (if neg then - of_nat un else of_nat un))"

text \<open>\<^verbatim>\<open>type blocknum int64\<close>; the raw tags carry their JSON quotes.\<close>

type_synonym blocknum = "64 word"

definition rawlatest :: string where
  "rawlatest = CHR 0x22 # ''latest'' @ [CHR 0x22]"

definition rawpending :: string where
  "rawpending = CHR 0x22 # ''pending'' @ [CHR 0x22]"

definition rawearliest :: string where
  "rawearliest = CHR 0x22 # ''earliest'' @ [CHR 0x22]"

text \<open>\<^verbatim>\<open>UnmarshalJSON\<close> returns its error and the receiver's value afterwards.\<close>

definition UnmarshalJSON :: "blocknum \<Rightarrow> string \<Rightarrow> error option \<times> blocknum" where
  "UnmarshalJSON b buf =
     (if rawpending = buf then (None, - 1)
      else if rawlatest = buf then (None, - 2)
      else if rawearliest = buf then (None, 0)
      else case ParseInt buf of
             Inl err \<Rightarrow> (Some err, b)
           | Inr i \<Rightarrow> (None, i))"

text \<open>
  \<^verbatim>\<open>encoding/json\<close> is outside the repository: \<^verbatim>\<open>json.Marshal\<close> on a raw message is the
  parameter \<open>mar\<close>, \<^verbatim>\<open>json.Unmarshal\<close> into a target the parameter \<open>unm\<close>, which returns
  its error and the target's value afterwards; \<open>'j\<close> is the encoded JSON.
  \<^verbatim>\<open>gross\<close> and \<^verbatim>\<open>marshal\<close> return their error and the targets afterwards.
\<close>

definition gross ::
  "('x \<Rightarrow> error + 'j) \<Rightarrow> ('j \<Rightarrow> 'v \<Rightarrow> error option \<times> 'v) \<Rightarrow> 'x \<Rightarrow> 'v \<Rightarrow> error option \<times> 'v" where
  "gross mar unm x y = (case mar x of Inl err \<Rightarrow> (Some err, y) | Inr b \<Rightarrow> unm b y)"

fun marshal_loop ::
  "('x \<Rightarrow> error + 'j) \<Rightarrow> ('j \<Rightarrow> 'v \<Rightarrow> error option \<times> 'v) \<Rightarrow> 'x list \<Rightarrow> 'v list \<Rightarrow> 'v list" where
  "marshal_loop mar unm (x # xs) (y # ys) = snd (gross mar unm x y) # marshal_loop mar unm xs ys"
| "marshal_loop mar unm xs ys = ys"

definition marshal ::
  "('x \<Rightarrow> error + 'j) \<Rightarrow> ('j \<Rightarrow> 'v \<Rightarrow> error option \<times> 'v) \<Rightarrow> 'x list \<Rightarrow> 'v list
     \<Rightarrow> error option \<times> 'v list" where
  "marshal mar unm from to =
     (if length from \<noteq> length to then (Some (ErrParams (length to) (length from)), to)
      else (None, marshal_loop mar unm from to))"

text \<open>The request struct of \<^verbatim>\<open>eth_newFilter\<close>, declared in \<^verbatim>\<open>execute\<close>.\<close>

record newFilterReq =
  FromBlock :: blocknum
  ToBlock :: blocknum
  Address :: "bytes option"
  Topics :: "bytes option list"

text \<open>
  \<^verbatim>\<open>json.Unmarshal\<close> into a \<^verbatim>\<open>newFilterReq\<close>, for the two block fields, whose decoder
  \<^verbatim>\<open>blocknum.UnmarshalJSON\<close> is in the sources. The JSON object is given as its members
  in order, each a key and the raw text of its value. As the package documents and does,
  the members are decoded one after the other into the fields that their keys name
  (\<^verbatim>\<open>fromBlock\<close>, \<^verbatim>\<open>toBlock\<close>), and decoding stops with the error of the first member whose
  \<^verbatim>\<open>UnmarshalJSON\<close> fails: the fields written before it keep what was decoded. Members with
  other keys are passed over (the decoders of the address and the topics are not among the
  sources).
\<close>

fun unmarshal_newFilterReq ::
  "(string \<times> string) list \<Rightarrow> newFilterReq \<Rightarrow> error option \<times> newFilterReq" where
  "unmarshal_newFilterReq [] req = (None, req)"
| "unmarshal_newFilterReq ((k, v) # ms) req =
     (if k = ''fromBlock'' then
        (case UnmarshalJSON (FromBlock req) v of
           (Some err, b) \<Rightarrow> (Some err, req\<lparr>FromBlock := b\<rparr>)
         | (None, b) \<Rightarrow> unmarshal_newFilterReq ms (req\<lparr>FromBlock := b\<rparr>))
      else if k = ''toBlock'' then
        (case UnmarshalJSON (ToBlock req) v of
           (Some err, b) \<Rightarrow> (Some err, req\<lparr>ToBlock := b\<rparr>)
         | (None, b) \<Rightarrow> unmarshal_newFilterReq ms (req\<lparr>ToBlock := b\<rparr>))
      else unmarshal_newFilterReq ms req)"

section \<open>The chain and its filters\<close>

text \<open>The \<^verbatim>\<open>filter\<close> struct is not among the sources; its fields are those that
  \<^verbatim>\<open>newFilter\<close> and \<^verbatim>\<open>filterChanges\<close> use.\<close>

record filter =
  f_from :: blocknum
  f_to :: blocknum
  f_addr :: "bytes option"
  f_topics :: "bytes option list"
  f_lastlog :: int

text \<open>
  Modelled from the spec: \<^verbatim>\<open>filter.matches\<close> is not among the sources. A log matches iff its
  block number is in \<open>[from, to]\<close>, its address equals the filter address if set, and for
  every non-nil topic position in the filter the log's topic at that position equals it.
  \<^verbatim>\<open>filterChanges\<close> below takes the matching predicate as a parameter.
\<close>

fun topics_match :: "bytes option list \<Rightarrow> bytes list \<Rightarrow> bool" where
  "topics_match [] ts = True"
| "topics_match (None # fs) [] = topics_match fs []"
| "topics_match (None # fs) (t # ts) = topics_match fs ts"
| "topics_match (Some f # fs) [] = False"
| "topics_match (Some f # fs) (t # ts) = (f = t \<and> topics_match fs ts)"

definition matches :: "filter \<Rightarrow> Log \<Rightarrow> bool" where
  "matches f l =
     (sint (f_from f) \<le> uint (l_BlockNumber l) \<and> uint (l_BlockNumber l) \<le> sint (f_to f)
      \<and> (case f_addr f of None \<Rightarrow> True | Some a \<Rightarrow> a = l_Address l)
      \<and> topics_match (f_topics f) (l_Topics l))"

text \<open>\<^verbatim>\<open>map[int64]int\<close> and \<^verbatim>\<open>map[int]*filter\<close> (a nil map is \<open>None\<close>); Go's \<^verbatim>\<open>int\<close> is
  64 bits wide.\<close>

record Chain =
  State :: State
  block2snap :: "64 word \<rightharpoonup> int"
  filters :: "(64 word \<rightharpoonup> filter) option"
  filtcount :: "64 word"

definition newFilter ::
  "Chain \<Rightarrow> blocknum \<Rightarrow> blocknum \<Rightarrow> bytes option \<Rightarrow> bytes option list \<Rightarrow> (error + 64 word) \<times> Chain" where
  "newFilter c from to addr topics =
     (if to <s from then (Inl (ErrFilterRange from to), c)
      else
        let c = c\<lparr>filtcount := filtcount c + 1\<rparr>;
            fs = (case filters c of None \<Rightarrow> Map.empty | Some fs \<Rightarrow> fs);
            c = c\<lparr>filters := Some (fs(filtcount c \<mapsto>
                   \<lparr>f_from = from, f_to = to, f_addr = addr, f_topics = topics, f_lastlog = 0\<rparr>))\<rparr>
        in (Inr (filtcount c), c))"

text \<open>\<^verbatim>\<open>c.State.Logs[filt.lastlog:]\<close> panics when the cursor is beyond the log array.\<close>

definition filterChanges ::
  "(filter \<Rightarrow> Log \<Rightarrow> bool) \<Rightarrow> Chain \<Rightarrow> 64 word \<Rightarrow> panic + ((error + seth_Log list) \<times> Chain)" where
  "filterChanges mt c fd =
     (case filters c of
        None \<Rightarrow> Inr (Inl (ErrBadFilterId fd), c)
      | Some fs \<Rightarrow>
         (case fs fd of
            None \<Rightarrow> Inr (Inl (ErrBadFilterId fd), c)
          | Some filt \<Rightarrow>
              if f_lastlog filt < 0 \<or> int (length (logs (State c))) < f_lastlog filt
              then Inl SliceBounds
              else
                let sub = drop (nat (f_lastlog filt)) (logs (State c));
                    out = map l2l (filter (mt filt) sub);
                    filt = filt\<lparr>f_lastlog := f_lastlog filt + int (length sub)\<rparr>
                in Inr (Inr out, c\<lparr>filters := Some (fs(fd \<mapsto> filt))\<rparr>)))"

section \<open>Synthetic hashes and the EVM\<close>

definition n2h :: "hashfn \<Rightarrow> 64 word \<Rightarrow> bytes" where
  "n2h H u = (let buf = le_put_uint64 u in H buf)"

text \<open>Dereferencing a pointer: nil panics.\<close>

definition deref :: "'a option \<Rightarrow> panic + 'a" where
  "deref p = (case p of None \<Rightarrow> Inl NilDereference | Some x \<Rightarrow> Inr x)"

text \<open>\<^verbatim>\<open>vm.Context\<close>: \<^verbatim>\<open>CanTransfer\<close> and \<^verbatim>\<open>Transfer\<close> are the fixed functions
  \<^verbatim>\<open>cantransfer\<close> and \<^verbatim>\<open>dotransfer\<close>.\<close>

record vm_Context =
  GetHash :: "64 word \<Rightarrow> bytes"
  Origin :: bytes
  Coinbase :: bytes
  GasLimit :: int
  BlockNumber :: int
  Time :: int
  Difficulty :: int

definition "context" :: "hashfn \<Rightarrow> Chain \<Rightarrow> bytes \<Rightarrow> panic + vm_Context" where
  "context H c sender =
     bindE (deref (Pending (State c))) (\<lambda>b.
     bindE (deref (b_Number b)) (\<lambda>number.
     bindE (deref (b_Difficulty b)) (\<lambda>difficulty.
       Inr \<lparr>GetHash = n2h H,
            Origin = sender,
            Coinbase = b_Miner b,
            GasLimit = sint (b_GasLimit b),
            BlockNumber = sint number,
            Time = sint (b_Timestamp b),
            Difficulty = difficulty\<rparr>)))"

definition cantransfer :: "State \<Rightarrow> bytes \<Rightarrow> int \<Rightarrow> bool" where
  "cantransfer s addr v = (v \<le> GetBalance s addr)"

definition dotransfer :: "State \<Rightarrow> bytes \<Rightarrow> bytes \<Rightarrow> int \<Rightarrow> panic + State" where
  "dotransfer st from to v =
     (if v = 0 then Inr st
      else
        let (facct, ok1) = GetAccount (Accounts st) from;
            (fbcct, ok2) = GetAccount (Accounts st) to;
            fbb = Balance facct - v;
            tbb = Balance fbcct + v
        in bindE (SetBalance facct fbb) (\<lambda>facct.
           bindE (SetBalance fbcct tbb) (\<lambda>fbcct.
             let accts = SetAccount (Accounts st) from facct;
                 accts = SetAccount accts to fbcct
             in Inr (st\<lparr>Accounts := accts\<rparr>))))"

text \<open>
  The EVM interpreter (go-ethereum's \<^verbatim>\<open>vm.EVM\<close>) is outside the repository. It reaches the
  state only through the \<^verbatim>\<open>vm.StateDB\<close> methods and the context's \<^verbatim>\<open>Transfer\<close>, so one
  run of it is the sequence of the mutating calls it makes, followed by what it returns.
  The interpreter is the parameter \<open>vm\<close>: from the context, the state it starts in and the
  call, it gives that sequence and the returned values.
\<close>

datatype evm_op =
    OpCreateAccount bytes
  | OpSubBalance bytes int
  | OpAddBalance bytes int
  | OpSetNonce bytes "64 word"
  | OpSetCode bytes bytes
  | OpAddRefund int
  | OpSetState bytes bytes bytes
  | OpSuicide bytes
  | OpAddLog Log
  | OpAddPreimage bytes bytes
  | OpSnapshot
  | OpRevertToSnapshot int
  | OpTransfer bytes bytes int
  | OpForEachStorage bytes

fun apply_op :: "hashfn \<Rightarrow> State \<Rightarrow> evm_op \<Rightarrow> panic + State" where
  "apply_op H s (OpCreateAccount a) = Inr (CreateAccount s a)"
| "apply_op H s (OpSubBalance a v) = SubBalance s a v"
| "apply_op H s (OpAddBalance a v) = AddBalance s a v"
| "apply_op H s (OpSetNonce a n) = SetNonce s a n"
| "apply_op H s (OpSetCode a d) = Inr (SetCode s a d)"
| "apply_op H s (OpAddRefund v) = Inr (AddRefund s v)"
| "apply_op H s (OpSetState a k v) = Inr (SetState H s a k v)"
| "apply_op H s (OpSuicide a) = Inr (snd (Suicide s a))"
| "apply_op H s (OpAddLog l) = Inr (AddLog s l)"
| "apply_op H s (OpAddPreimage h b) = Inr (AddPreimage s h b)"
| "apply_op H s OpSnapshot = Inr (snd (Snapshot s))"
| "apply_op H s (OpRevertToSnapshot v) = RevertToSnapshot s v"
| "apply_op H s (OpTransfer a b v) = dotransfer s a b v"
| "apply_op H s (OpForEachStorage a) = Inl NotImplemented"

fun run_ops :: "hashfn \<Rightarrow> State \<Rightarrow> evm_op list \<Rightarrow> panic + State" where
  "run_ops H s [] = Inr s"
| "run_ops H s (x # xs) = bindE (apply_op H s x) (\<lambda>s'. run_ops H s' xs)"

datatype evm_call =
    EvmCreate bytes bytes "64 word" int
  | EvmCall bytes bytes bytes "64 word" int

record evm_return =
  r_ret :: bytes
  r_addr :: bytes
  r_gas :: "64 word"
  r_err :: "error option"

type_synonym evm = "vm_Context \<Rightarrow> State \<Rightarrow> evm_call \<Rightarrow> evm_op list \<times> evm_return"

text \<open>The msgpack and JSON encoders of the \<^verbatim>\<open>seth\<close> package, outside the sources:
  \<^verbatim>\<open>js(&tx.Hash)\<close>, \<^verbatim>\<open>encode\<close> on a transaction, a receipt and a block, and
  \<^verbatim>\<open>Block.UnmarshalMsg\<close>.\<close>

record codec =
  js_hash :: "bytes \<Rightarrow> bytes"
  encode_tx :: "Transaction \<Rightarrow> bytes"
  encode_rx :: "Receipt \<Rightarrow> bytes"
  encode_block :: "Block \<Rightarrow> bytes"
  UnmarshalMsg :: "bytes \<Rightarrow> Block option"

section \<open>The chain driver\<close>

text \<open>What \<^verbatim>\<open>AtBlock\<close> returns: the receiver \<^verbatim>\<open>c\<close> itself, \<^verbatim>\<open>nil\<close>, or a new chain.\<close>

datatype atblock = Receiver | Nil | Child Chain

definition AtBlock :: "hashfn \<Rightarrow> codec \<Rightarrow> Chain \<Rightarrow> 64 word \<Rightarrow> panic + atblock" where
  "AtBlock H cd c n =
     bindE (deref (Pending (State c))) (\<lambda>pb.
     bindE (deref (b_Number pb)) (\<lambda>pending.
       let sel =
            (if n = pending - 1 \<or> n = - 2 then
               (case block2snap c (pending - 1) of
                  Some s \<Rightarrow> Inr (pending - 1, s)
                | None \<Rightarrow> Inl Receiver)
             else if n = pending \<or> n = - 1 then Inl Receiver
             else
               (case block2snap c n of
                  None \<Rightarrow> Inl Nil
                | Some s \<Rightarrow> Inr (n, s)))
       in case sel of
            Inl r \<Rightarrow> Inr r
          | Inr (n, snap) \<Rightarrow>
             (let h = n2h H n in
              case Get (Blocks (State c)) h of
                None \<Rightarrow> Inr Nil
              | Some buf \<Rightarrow>
                 (case UnmarshalMsg cd buf of
                    None \<Rightarrow> Inl UnmarshalFailure
                  | Some nb \<Rightarrow>
                      bindE (atSnap (State c) snap zero_State) (\<lambda>st.
                        Inr (Child \<lparr>State = st\<lparr>Pending := Some nb\<rparr>,
                                    block2snap = block2snap c,
                                    filters = None, filtcount = 0\<rparr>))))))"

text \<open>\<^verbatim>\<open>Mine\<close> returns \<^verbatim>\<open>(ret, h, err)\<close> and leaves the chain and the transaction
  changed.\<close>

record mine_return =
  m_ret :: bytes
  m_h :: bytes
  m_err :: "error option"

definition Mine ::
  "hashfn \<Rightarrow> codec \<Rightarrow> evm \<Rightarrow> Chain \<Rightarrow> Transaction \<Rightarrow> panic + (mine_return \<times> Chain \<times> Transaction)" where
  "Mine H cd vm c tx =
     (let l0 = length (logs (State c)) in
      bindE (deref (tx_From tx)) (\<lambda>sender.
      bindE (context H c sender) (\<lambda>ctx.
        let (ops, r) =
              (case tx_To tx of
                 None \<Rightarrow> vm ctx (State c) (EvmCreate sender (tx_Input tx) (tx_Gas tx) (tx_Value tx))
               | Some dst \<Rightarrow> vm ctx (State c) (EvmCall sender dst (tx_Input tx) (tx_Gas tx) (tx_Value tx)));
            addr = (case tx_To tx of None \<Rightarrow> r_addr r | Some dst \<Rightarrow> replicate 20 0)
        in
        bindE (run_ops H (State c) ops) (\<lambda>s.
          case r_err r of
            Some err \<Rightarrow> Inr (\<lparr>m_ret = r_ret r, m_h = zerohash, m_err = Some err\<rparr>, c\<lparr>State := s\<rparr>, tx)
          | None \<Rightarrow>
             (let used = tx_Gas tx - r_gas r in
              bindE (deref (Pending s)) (\<lambda>b.
                let b = b\<lparr>b_GasUsed := b_GasUsed b + used\<rparr>;
                    idx = (of_nat (length (b_Transactions b)) :: 64 word);
                    tx = tx\<lparr>tx_TxIndex := Some idx\<rparr>
                in
                bindE (deref (b_Hash b)) (\<lambda>bhash.
                bindE (deref (b_Number b)) (\<lambda>bnumber.
                  let tx = tx\<lparr>tx_Block := bhash, tx_BlockNumber := bnumber\<rparr>;
                      bh = n2h H (bnumber OR push_bit 48 (of_nat (length (b_Transactions b))));
                      tx = tx\<lparr>tx_Hash := H bh\<rparr>;
                      h = tx_Hash tx
                  in
                  if length (logs s) < l0 then Inl SliceBounds
                  else
                  let rx = \<lparr>rx_Hash = tx_Hash tx,
                            rx_Index = idx,
                            rx_GasUsed = used,
                            rx_Cumulative = b_GasUsed b,
                            rx_Logs = lconv (drop l0 (logs s)),
                            rx_Address = None\<rparr>;
                      rx = (if tx_To tx = None
                            then rx\<lparr>rx_Address := Some (copy_bytes (replicate 20 0) addr)\<rparr>
                            else rx);
                      b = b\<lparr>b_Transactions := b_Transactions b @ [js_hash cd (tx_Hash tx)]\<rparr>;
                      s = s\<lparr>Pending := Some b\<rparr>;
                      s = s\<lparr>Transactions := Insert (Transactions s) (tx_Hash tx) (encode_tx cd tx)\<rparr>;
                      s = s\<lparr>Receipts := Insert (Receipts s) (rx_Hash rx) (encode_rx cd rx)\<rparr>
                  in Inr (\<lparr>m_ret = r_ret r, m_h = h, m_err = None\<rparr>, c\<lparr>State := s\<rparr>, tx)))))))))"

text \<open>\<^verbatim>\<open>Seal\<close> and \<^verbatim>\<open>NewChain\<close> read the clock: the time is the argument \<open>now\<close>.\<close>

definition Seal :: "hashfn \<Rightarrow> codec \<Rightarrow> 64 word \<Rightarrow> Chain \<Rightarrow> panic + Chain" where
  "Seal H cd now c =
     bindE (deref (Pending (State c))) (\<lambda>b.
     bindE (deref (b_Number b)) (\<lambda>number.
       let (snap, s) = Snapshot (State c);
           c = c\<lparr>State := s, block2snap := (block2snap c)(number \<mapsto> snap)\<rparr>
       in
       bindE (deref (b_Hash b)) (\<lambda>bhash.
         let s = (State c)\<lparr>Blocks := Insert (Blocks (State c)) bhash (encode_block cd b)\<rparr>;
             n = number + 1;
             h = n2h H n;
             s = s\<lparr>Pending := Some \<lparr>b_Number = Some n, b_Hash = Some h, b_Parent = bhash,
                    b_Miner = replicate 20 0, b_Timestamp = now, b_GasLimit = b_GasLimit b,
                    b_GasUsed = 0, b_Difficulty = Some 0, b_TotalDifficulty = Some 0,
                    b_Transactions = []\<rparr>\<rparr>
         in Inr (c\<lparr>State := s\<rparr>))))"

definition defaultBlock :: "64 word" where
  "defaultBlock = 100"

definition defaultGasLimit :: "64 word" where
  "defaultGasLimit = 6000000"

definition defaultDifficulty :: int where
  "defaultDifficulty = 100"

definition NewChain :: "hashfn \<Rightarrow> 64 word \<Rightarrow> Chain" where
  "NewChain H now =
     (let n = defaultBlock;
          h = n2h H defaultBlock
      in \<lparr>State = zero_State\<lparr>Pending := Some \<lparr>b_Number = Some n, b_Hash = Some h,
              b_Parent = zerohash, b_Miner = replicate 20 0, b_Timestamp = now,
              b_GasLimit = defaultGasLimit, b_GasUsed = 0,
              b_Difficulty = Some defaultDifficulty, b_TotalDifficulty = None,
              b_Transactions = []\<rparr>\<rparr>,
          block2snap = Map.empty, filters = None, filtcount = 0\<rparr>)"

text \<open>A run of \<^verbatim>\<open>newFilter\<close> calls, collecting the ids that the successful ones return.\<close>

fun newFilter_run ::
  "Chain \<Rightarrow> (blocknum \<times> blocknum \<times> bytes option \<times> bytes option list) list \<Rightarrow> 64 word list \<times> Chain" where
  "newFilter_run c [] = ([], c)"
| "newFilter_run c ((from, to, addr, topics) # rs) =
     (let (r, c') = newFilter c from to addr topics;
          (ids, c'') = newFilter_run c' rs
      in (case r of Inl err \<Rightarrow> ids | Inr i \<Rightarrow> i # ids, c''))"

section \<open>Properties of the state adapter\<close>

lemma copy_bytes_Nil: "copy_bytes dst [] = dst"
  by (simp add: copy_bytes_def)

lemma copy_bytes_same_length: "length src = length dst \<Longrightarrow> copy_bytes dst src = src"
  by (simp add: copy_bytes_def)

lemma length_copy_bytes: "length (copy_bytes dst src) = length dst"
  by (simp add: copy_bytes_def)

lemma be_nat_zeros: "be_nat (replicate n 0) = 0"
proof -
  have "foldl (\<lambda>acc b. acc * 256 + unat b) 0 (replicate n (0 :: byte)) = 0"
    by (induction n) simp_all
  then show ?thesis by (simp add: be_nat_def)
qed

lemma Balance_zero_Account: "Balance zero_Account = 0"
  by (simp add: Balance_def zero_Account_def be_nat_zeros)

lemma Nonce_zero_Account: "Nonce zero_Account = 0"
  by (simp add: Nonce_def zero_Account_def be_uint64_def be_nat_zeros)

lemma Suicided_zero_Account: "\<not> Suicided zero_Account"
  by (simp add: Suicided_def zero_Account_def)

lemma Get_empty_Tree: "Get empty_Tree k = None"
  by (simp add: Get_def empty_Tree_def)

lemma Get_Delete: "Get (Delete t k) k' = (if k' = k then None else Get t k')"
  by (simp add: Get_def Delete_def split: option.splits)

lemma Get_Insert: "Get (Insert t k v) k' = (if k' = k then Some v else Get t k')"
  by (simp add: Get_def Insert_def)

lemma GetAccount_length: "length (fst (GetAccount t a)) = 41"
  by (simp add: GetAccount_def Let_def zero_Account_def length_copy_bytes)

lemma GetAccount_SetAccount_same:
  "length acct = 41 \<Longrightarrow> GetAccount (SetAccount t a acct) a = (acct, True)"
  by (simp add: GetAccount_def SetAccount_def slice_of_def zero_Account_def Let_def Get_Insert
      copy_bytes_same_length)

lemma GetAccount_SetAccount_other:
  "b \<noteq> a \<Longrightarrow> GetAccount (SetAccount t a acct) b = GetAccount t b"
  by (simp add: GetAccount_def SetAccount_def Get_Insert)

lemma GetAccount_empty_Tree: "GetAccount empty_Tree a = (zero_Account, False)"
  by (simp add: GetAccount_def slice_of_def zero_Account_def Get_empty_Tree copy_bytes_Nil)

lemma GetAccount_CreateAccount:
  "GetAccount (Accounts (CreateAccount s a)) a = (zero_Account, True)"
  by (simp add: CreateAccount_def GetAccount_SetAccount_same zero_Account_def)

lemma Balance_flag: "Balance (a[40 := x]) = Balance a"
  by (simp add: Balance_def)

lemma Nonce_flag: "Nonce (a[40 := x]) = Nonce a"
  by (simp add: Nonce_def be_uint64_def drop_update_swap)

lemma Suicided_flag: "length a = 41 \<Longrightarrow> Suicided (a[40 := 1])"
  by (simp add: Suicided_def)

lemmas adapter_simps =
  copy_bytes_Nil copy_bytes_same_length length_copy_bytes be_nat_zeros Balance_zero_Account
  Nonce_zero_Account Suicided_zero_Account Get_empty_Tree Get_Delete Get_Insert
  GetAccount_length GetAccount_empty_Tree GetAccount_CreateAccount Balance_flag Nonce_flag
  Suicided_flag

text \<open>
  C4: for every address and slot, \<^verbatim>\<open>SetState\<close> with the all-zero value deletes the storage
  entry: afterwards the Storage tree holds nothing under \<open>keccak256(a \<parallel> k)\<close> and
  \<^verbatim>\<open>GetState\<close> returns the zero hash.
\<close>

theorem SetState_zero_deletes:
  "Get (Storage (SetState H s a k zerohash)) (stateKey H a k) = None
   \<and> GetState H (SetState H s a k zerohash) a k = zerohash"
  by (simp add: SetState_def GetState_def slice_of_def Get_Delete copy_bytes_Nil)

theorem SetState_zero_deletes_witness:
  "Get (Storage (SetState (\<lambda>b. b) (SetState (\<lambda>b. b) zero_State [1] [2] (replicate 32 9)) [1] [2] zerohash))
       (stateKey (\<lambda>b. b) [1] [2]) = None
   \<and> GetState (\<lambda>b. b) (SetState (\<lambda>b. b) zero_State [1] [2] (replicate 32 9)) [1] [2] = replicate 32 9"
  using SetState_zero_deletes [of "\<lambda>b. b" "SetState (\<lambda>b. b) zero_State [1] [2] (replicate 32 9)" "[1]" "[2]"]
  by (simp add: SetState_def GetState_def slice_of_def zerohash_def adapter_simps)

text \<open>
  C6: \<^verbatim>\<open>Empty(a)\<close> is true if and only if the account does not exist, or its nonce is 0, its
  balance is zero and its code has zero length.
\<close>

theorem Empty_iff:
  "Empty s a \<longleftrightarrow>
     (\<not> Exist s a \<or> (GetNonce s a = 0 \<and> GetBalance s a = 0 \<and> GetCodeSize s a = 0))"
  by (simp add: Empty_def Exist_def GetNonce_def GetBalance_def GetCodeSize_def GetCode_def
      split: prod.splits)

theorem Empty_iff_witness:
  "Exist (SetCode (CreateAccount zero_State [7]) [7] [0x60]) [7]
   \<and> GetCodeSize (SetCode (CreateAccount zero_State [7]) [7] [0x60]) [7] = 1
   \<and> \<not> Empty (SetCode (CreateAccount zero_State [7]) [7] [0x60]) [7]
   \<and> Empty (CreateAccount zero_State [7]) [7]
   \<and> Empty zero_State [7]"
proof -
  have e: "Exist (SetCode (CreateAccount zero_State [7]) [7] [0x60]) [7]"
    by (simp add: Exist_def SetCode_def adapter_simps)
  have c: "GetCodeSize (SetCode (CreateAccount zero_State [7]) [7] [0x60]) [7] = 1"
    by (simp add: GetCodeSize_def GetCode_def GetCode_Tree_def SetCode_def PutCode_def slice_of_def
        adapter_simps)
  have n: "GetNonce (CreateAccount zero_State [7]) [7] = 0
      \<and> GetBalance (CreateAccount zero_State [7]) [7] = 0
      \<and> GetCodeSize (CreateAccount zero_State [7]) [7] = 0"
    by (simp add: GetNonce_def GetBalance_def GetCodeSize_def GetCode_def GetCode_Tree_def
        CreateAccount_def zero_State_def slice_of_def GetAccount_SetAccount_same zero_Account_def
        Nonce_def Balance_def be_uint64_def adapter_simps)
  have z: "\<not> Exist zero_State [7]"
    by (simp add: Exist_def zero_State_def adapter_simps)
  show ?thesis
    using Empty_iff [of "SetCode (CreateAccount zero_State [7]) [7] [0x60]" "[7]"]
      Empty_iff [of "CreateAccount zero_State [7]" "[7]"] Empty_iff [of zero_State "[7]"]
      e c n z
    by simp
qed

text \<open>
  C7: for every existing account, after \<^verbatim>\<open>Suicide(a)\<close> the flag reads as set, the account
  still exists, and its balance and nonce are unchanged; only the flag byte of that one
  account is written (and nothing when it was set already): every other account reads as
  before and every other field of the state is the same.
\<close>

theorem Suicide_frame:
  assumes "Exist s a"
  shows "HasSuicided (snd (Suicide s a)) a
    \<and> Exist (snd (Suicide s a)) a
    \<and> GetBalance (snd (Suicide s a)) a = GetBalance s a
    \<and> GetNonce (snd (Suicide s a)) a = GetNonce s a
    \<and> fst (GetAccount (Accounts (snd (Suicide s a))) a) =
        (let acct = fst (GetAccount (Accounts s) a) in if Suicided acct then acct else acct[40 := 1])
    \<and> (\<forall>b. b \<noteq> a \<longrightarrow> GetAccount (Accounts (snd (Suicide s a))) b = GetAccount (Accounts s) b)
    \<and> (snd (Suicide s a))\<lparr>Accounts := Accounts s\<rparr> = s"
proof -
  obtain acct where g: "GetAccount (Accounts s) a = (acct, True)"
    using assms by (cases "GetAccount (Accounts s) a") (simp add: Exist_def)
  have len: "length acct = 41"
    using GetAccount_length [of "Accounts s" a] g by simp
  show ?thesis
  proof (cases "Suicided acct")
    case True
    then have "Suicide s a = (False, s)"
      by (simp add: Suicide_def g)
    then show ?thesis
      using True g by (simp add: HasSuicided_def Exist_def)
  next
    case False
    then have "Suicide s a = (True, s\<lparr>Accounts := SetAccount (Accounts s) a (acct[40 := 1])\<rparr>)"
      by (simp add: Suicide_def g SetSuicided_def)
    then show ?thesis
      using False g len
      by (simp add: HasSuicided_def Exist_def GetBalance_def GetNonce_def
          GetAccount_SetAccount_same GetAccount_SetAccount_other adapter_simps)
  qed
qed

theorem Suicide_frame_witness:
  "Exist (CreateAccount zero_State [7]) [7]
   \<and> \<not> HasSuicided (CreateAccount zero_State [7]) [7]
   \<and> HasSuicided (snd (Suicide (CreateAccount zero_State [7]) [7])) [7]
   \<and> Exist (snd (Suicide (CreateAccount zero_State [7]) [7])) [7]
   \<and> GetBalance (snd (Suicide (CreateAccount zero_State [7]) [7])) [7] = 0
   \<and> GetNonce (snd (Suicide (CreateAccount zero_State [7]) [7])) [7] = 0"
proof -
  have h: "Exist (CreateAccount zero_State [7]) [7]"
    by (simp add: Exist_def adapter_simps)
  have n: "\<not> HasSuicided (CreateAccount zero_State [7]) [7]"
    by (simp add: HasSuicided_def adapter_simps)
  have b: "GetBalance (CreateAccount zero_State [7]) [7] = 0"
    by (simp add: GetBalance_def adapter_simps)
  have c: "GetNonce (CreateAccount zero_State [7]) [7] = 0"
    by (simp add: GetNonce_def adapter_simps)
  show ?thesis
    using Suicide_frame [OF h] h n b c by simp
qed

lemma RevertToSnapshot_snapshots:
  "RevertToSnapshot s v = Inr s' \<Longrightarrow> snapshots s' = snapshots s"
  by (auto simp: RevertToSnapshot_def Let_def bindE_def split: if_splits sum.splits)

text \<open>
  C1 (the code departs from it): after \<^verbatim>\<open>RevertToSnapshot(v)\<close> the snapshot stack should hold
  no descriptor above \<open>v\<close>, so that a later revert to a handle obtained after \<open>v\<close> fails.
  On a fresh state: take snapshot 0, write a storage slot, take snapshot 1, revert to 0.
  The slot reads zero again, but both descriptors are still on the stack; after another
  write to the slot, the revert to the stale handle 1 is accepted, and the slot keeps the
  value written after the first revert, not the one that snapshot 1 captured.
\<close>

theorem RevertToSnapshot_rolls_forward:
  "(let s1 = snd (Snapshot zero_State);
        s2 = SetState (\<lambda>b. b) s1 [1] [2] (replicate 32 7);
        s3 = snd (Snapshot s2)
    in fst (Snapshot zero_State) = 0 \<and> fst (Snapshot s2) = 1
       \<and> (case RevertToSnapshot s3 0 of
             Inl p \<Rightarrow> False
           | Inr s4 \<Rightarrow>
               GetState (\<lambda>b. b) s4 [1] [2] = zerohash
               \<and> length (snapshots s4) = 2
               \<and> (case RevertToSnapshot (SetState (\<lambda>b. b) s4 [1] [2] (replicate 32 9)) 1 of
                     Inl p \<Rightarrow> False
                   | Inr s5 \<Rightarrow> GetState (\<lambda>b. b) s5 [1] [2] = replicate 32 9)))"
  by (simp add: RevertToSnapshot_def Snapshot_def zero_State_def empty_Tree_def Rollback_def
      Snapshot_Tree_def bindE_def Let_def SetState_def GetState_def zerohash_def Insert_def
      Get_def slice_of_def copy_bytes_Nil copy_bytes_same_length)

section \<open>Properties of filters\<close>

lemma sint_succ:
  fixes w :: "64 word"
  assumes "sint w < 2 ^ 63 - 1"
  shows "sint (w + 1) = sint w + 1"
proof -
  have "- (2 ^ 63) \<le> sint w"
    using sint_ge [of w] by simp
  then have "signed_take_bit (LENGTH(64) - 1) (sint w + 1) = sint w + 1"
    using assms by (intro signed_take_bit_int_eq_self) simp_all
  then show ?thesis
    using sint_word_add [of w 1] by simp
qed

lemma UnmarshalJSON_tags:
  "UnmarshalJSON b rawpending = (None, - 1)"
  "UnmarshalJSON b rawlatest = (None, - 2)"
  "UnmarshalJSON b rawearliest = (None, 0)"
  by (simp_all add: UnmarshalJSON_def rawpending_def rawlatest_def rawearliest_def)

lemma newFilter_error_iff:
  "isl (fst (newFilter c fr t addr topics)) \<longleftrightarrow> t <s fr"
  by (simp add: newFilter_def Let_def)

lemma newFilter_ok:
  "\<not> t <s fr \<Longrightarrow>
     fst (newFilter c fr t addr topics) = Inr (filtcount c + 1)
     \<and> filtcount (snd (newFilter c fr t addr topics)) = filtcount c + 1"
  by (simp add: newFilter_def Let_def)

lemma newFilter_err:
  "t <s fr \<Longrightarrow> newFilter c fr t addr topics = (Inl (ErrFilterRange fr t), c)"
  by (simp add: newFilter_def)

lemma newFilter_run_bounds:
  "sint (filtcount c) + int (length rs) < 2 ^ 63 \<Longrightarrow>
     (\<forall>i \<in> set (fst (newFilter_run c rs)). filtcount c <s i \<and> i \<le>s filtcount (snd (newFilter_run c rs)))
     \<and> sint (filtcount (snd (newFilter_run c rs))) \<le> sint (filtcount c) + int (length rs)
     \<and> filtcount c \<le>s filtcount (snd (newFilter_run c rs))
     \<and> sorted_wrt (<s) (fst (newFilter_run c rs))"
proof (induction rs arbitrary: c)
  case Nil
  then show ?case by simp
next
  case (Cons r rs)
  obtain fr t addr topics where r: "r = (fr, t, addr, topics)"
    by (cases r) auto
  show ?case
  proof (cases "t <s fr")
    case True
    then show ?thesis
      using Cons.IH [of c] Cons.prems
      by (simp add: r newFilter_err split: prod.splits)
  next
    case False
    let ?c' = "snd (newFilter c fr t addr topics)"
    have fc: "filtcount ?c' = filtcount c + 1" and res: "fst (newFilter c fr t addr topics) = Inr (filtcount c + 1)"
      using newFilter_ok [OF False] by auto
    have s: "sint (filtcount c + 1) = sint (filtcount c) + 1"
      using Cons.prems by (intro sint_succ) simp
    have ih: "(\<forall>i \<in> set (fst (newFilter_run ?c' rs)). filtcount ?c' <s i \<and> i \<le>s filtcount (snd (newFilter_run ?c' rs)))
     \<and> sint (filtcount (snd (newFilter_run ?c' rs))) \<le> sint (filtcount ?c') + int (length rs)
     \<and> filtcount ?c' \<le>s filtcount (snd (newFilter_run ?c' rs))
     \<and> sorted_wrt (<s) (fst (newFilter_run ?c' rs))"
      using Cons.prems by (intro Cons.IH) (simp add: fc s)
    have run: "newFilter_run c (r # rs) = ((filtcount c + 1) # fst (newFilter_run ?c' rs), snd (newFilter_run ?c' rs))"
      using res by (cases "newFilter c fr t addr topics") (simp add: r split: prod.splits)
    have lt: "\<forall>i \<in> set (fst (newFilter_run ?c' rs)). sint (filtcount c) + 1 < sint i
        \<and> sint i \<le> sint (filtcount (snd (newFilter_run ?c' rs)))"
      using ih by (simp add: fc s word_sless_alt word_sle_eq)
    have le: "sint (filtcount c) + 1 \<le> sint (filtcount (snd (newFilter_run ?c' rs)))"
      using ih by (simp add: fc s word_sle_eq)
    have ub: "sint (filtcount (snd (newFilter_run ?c' rs))) \<le> sint (filtcount c) + 1 + int (length rs)"
      using ih by (simp add: fc s)
    have srt: "sorted_wrt (<s) (fst (newFilter_run ?c' rs))"
      using ih by simp
    have hd: "\<forall>i \<in> set (fst (newFilter_run ?c' rs)). (filtcount c + 1) <s i"
      using lt by (simp add: word_sless_alt s)
    have 1: "\<forall>i \<in> set (fst (newFilter_run c (r # rs))).
        filtcount c <s i \<and> i \<le>s filtcount (snd (newFilter_run c (r # rs)))"
      using lt le by (auto simp: run word_sless_alt word_sle_eq s)
    have 2: "sint (filtcount (snd (newFilter_run c (r # rs)))) \<le> sint (filtcount c) + int (length (r # rs))"
      using ub by (simp add: run)
    have 3: "filtcount c \<le>s filtcount (snd (newFilter_run c (r # rs)))"
      using le by (simp add: run word_sle_eq)
    have 4: "sorted_wrt (<s) (fst (newFilter_run c (r # rs)))"
      using srt hd by (simp add: run)
    show ?thesis
      using 1 2 3 4 by blast
  qed
qed

text \<open>
  C5: \<^verbatim>\<open>newFilter\<close> returns an error exactly when the resolved from-block exceeds the
  resolved to-block (the tags resolve as pending = -1, latest = -2, earliest = 0) and then
  leaves the chain as it was; otherwise it returns an id strictly greater than every id
  returned by the calls before it, as long as the 64-bit counter has not run over.
\<close>

theorem newFilter_spec:
  "UnmarshalJSON b rawpending = (None, - 1)
   \<and> UnmarshalJSON b rawlatest = (None, - 2)
   \<and> UnmarshalJSON b rawearliest = (None, 0)
   \<and> (isl (fst (newFilter (snd (newFilter_run c rs)) fr t addr topics)) \<longleftrightarrow> t <s fr)
   \<and> (t <s fr \<longrightarrow> snd (newFilter (snd (newFilter_run c rs)) fr t addr topics) = snd (newFilter_run c rs))
   \<and> (\<not> t <s fr \<and> sint (filtcount c) + int (length rs) + 1 < 2 ^ 63 \<longrightarrow>
        (\<exists>i. fst (newFilter (snd (newFilter_run c rs)) fr t addr topics) = Inr i
           \<and> (\<forall>j \<in> set (fst (newFilter_run c rs)). j <s i)))"
proof -
  let ?c' = "snd (newFilter_run c rs)"
  have mono: "\<forall>j \<in> set (fst (newFilter_run c rs)). j <s filtcount ?c' + 1"
    if ok: "sint (filtcount c) + int (length rs) + 1 < 2 ^ 63"
  proof
    fix j assume j: "j \<in> set (fst (newFilter_run c rs))"
    have bnd: "sint (filtcount c) + int (length rs) < 2 ^ 63"
      using ok by simp
    have "j \<le>s filtcount ?c'" and ub: "sint (filtcount ?c') \<le> sint (filtcount c) + int (length rs)"
      using newFilter_run_bounds [OF bnd] j by auto
    moreover have "sint (filtcount ?c' + 1) = sint (filtcount ?c') + 1"
      using ub ok by (intro sint_succ) simp
    ultimately show "j <s filtcount ?c' + 1"
      by (simp add: word_sless_alt word_sle_eq)
  qed
  show ?thesis
    using mono newFilter_ok [of t fr ?c' addr topics]
    by (auto simp: UnmarshalJSON_tags newFilter_error_iff newFilter_err)
qed

theorem newFilter_spec_witness:
  "fst (newFilter_run (NewChain (\<lambda>b. b) 0) [(0, 5, None, []), (7, 3, None, []), (- 2, - 1, None, [])]) = [1, 2]
   \<and> fst (newFilter (snd (newFilter_run (NewChain (\<lambda>b. b) 0)
              [(0, 5, None, []), (7, 3, None, []), (- 2, - 1, None, [])])) 0 9 None []) = Inr 3
   \<and> isl (fst (newFilter (snd (newFilter_run (NewChain (\<lambda>b. b) 0)
              [(0, 5, None, []), (7, 3, None, []), (- 2, - 1, None, [])])) 0 (- 2) None []))
   \<and> UnmarshalJSON 0 rawlatest = (None, - 2)"
  using newFilter_spec [of 0 "NewChain (\<lambda>b. b) 0"
      "[(0, 5, None, []), (7, 3, None, []), (- 2, - 1, None, [])]" 9 0 None "[]"]
    newFilter_spec [of 0 "NewChain (\<lambda>b. b) 0"
      "[(0, 5, None, []), (7, 3, None, []), (- 2, - 1, None, [])]" "- 2" 0 None "[]"]
  by (simp add: newFilter_def NewChain_def Let_def word_sless_alt)

lemma logs_foldl_AddLog: "logs (foldl AddLog s new) = logs s @ new"
  by (induction new arbitrary: s) (simp_all add: AddLog_def)

text \<open>
  C8 (amended): for an installed filter whose cursor does not lie beyond the end of the log
  array, \<^verbatim>\<open>filterChanges\<close> returns the matching logs from the cursor to the end, in log
  order, and moves the cursor to the end; a second call with no change to the logs returns
  the empty list, and after logs are appended the next call returns exactly the matching
  ones among them.
\<close>

theorem filterChanges_cursor:
  assumes "filters c = Some fs" and "fs fd = Some filt"
    and "0 \<le> f_lastlog filt" and "f_lastlog filt \<le> int (length (logs (State c)))"
  shows "filterChanges mt c fd =
           Inr (Inr (map l2l (filter (mt filt) (drop (nat (f_lastlog filt)) (logs (State c))))),
                c\<lparr>filters := Some (fs(fd \<mapsto> filt\<lparr>f_lastlog := int (length (logs (State c)))\<rparr>))\<rparr>)
    \<and> filterChanges mt (c\<lparr>filters := Some (fs(fd \<mapsto> filt\<lparr>f_lastlog := int (length (logs (State c)))\<rparr>))\<rparr>) fd =
           Inr (Inr [], c\<lparr>filters := Some (fs(fd \<mapsto> filt\<lparr>f_lastlog := int (length (logs (State c)))\<rparr>))\<rparr>)
    \<and> filterChanges mt (c\<lparr>filters := Some (fs(fd \<mapsto> filt\<lparr>f_lastlog := int (length (logs (State c)))\<rparr>)),
                           State := foldl AddLog (State c) new\<rparr>) fd =
           Inr (Inr (map l2l (filter (mt (filt\<lparr>f_lastlog := int (length (logs (State c)))\<rparr>)) new)),
                c\<lparr>filters := Some (fs(fd \<mapsto> filt\<lparr>f_lastlog := int (length (logs (State c)) + length new)\<rparr>)),
                  State := foldl AddLog (State c) new\<rparr>)"
  using assms by (simp add: filterChanges_def Let_def logs_foldl_AddLog)


theorem filterChanges_cursor_witness:
  "filterChanges matches
     \<lparr>State = zero_State\<lparr>logs := [\<lparr>l_Address = [1], l_Topics = [], l_Data = [], l_BlockNumber = 100,
         l_TxHash = [], l_TxIndex = 0, l_BlockHash = [], l_Index = 0, l_Removed = False\<rparr>]\<rparr>,
      block2snap = Map.empty,
      filters = Some [1 \<mapsto> \<lparr>f_from = 0, f_to = 200, f_addr = Some [1], f_topics = [], f_lastlog = 0\<rparr>],
      filtcount = 1\<rparr> 1
   = Inr (Inr [l2l \<lparr>l_Address = [1], l_Topics = [], l_Data = [], l_BlockNumber = 100,
         l_TxHash = [], l_TxIndex = 0, l_BlockHash = [], l_Index = 0, l_Removed = False\<rparr>],
     \<lparr>State = zero_State\<lparr>logs := [\<lparr>l_Address = [1], l_Topics = [], l_Data = [], l_BlockNumber = 100,
         l_TxHash = [], l_TxIndex = 0, l_BlockHash = [], l_Index = 0, l_Removed = False\<rparr>]\<rparr>,
      block2snap = Map.empty,
      filters = Some [1 \<mapsto> \<lparr>f_from = 0, f_to = 200, f_addr = Some [1], f_topics = [], f_lastlog = 1\<rparr>],
      filtcount = 1\<rparr>)
  \<and> filterChanges matches
     \<lparr>State = zero_State\<lparr>logs := [\<lparr>l_Address = [1], l_Topics = [], l_Data = [], l_BlockNumber = 100,
         l_TxHash = [], l_TxIndex = 0, l_BlockHash = [], l_Index = 0, l_Removed = False\<rparr>]\<rparr>,
      block2snap = Map.empty,
      filters = Some [1 \<mapsto> \<lparr>f_from = 0, f_to = 200, f_addr = Some [1], f_topics = [], f_lastlog = 1\<rparr>],
      filtcount = 1\<rparr> 1
   = Inr (Inr [],
     \<lparr>State = zero_State\<lparr>logs := [\<lparr>l_Address = [1], l_Topics = [], l_Data = [], l_BlockNumber = 100,
         l_TxHash = [], l_TxIndex = 0, l_BlockHash = [], l_Index = 0, l_Removed = False\<rparr>]\<rparr>,
      block2snap = Map.empty,
      filters = Some [1 \<mapsto> \<lparr>f_from = 0, f_to = 200, f_addr = Some [1], f_topics = [], f_lastlog = 1\<rparr>],
      filtcount = 1\<rparr>)"
  using filterChanges_cursor [of
     "\<lparr>State = zero_State\<lparr>logs := [\<lparr>l_Address = [1], l_Topics = [], l_Data = [], l_BlockNumber = 100,
         l_TxHash = [], l_TxIndex = 0, l_BlockHash = [], l_Index = 0, l_Removed = False\<rparr>]\<rparr>,
      block2snap = Map.empty,
      filters = Some [1 \<mapsto> \<lparr>f_from = 0, f_to = 200, f_addr = Some [1], f_topics = [], f_lastlog = 0\<rparr>],
      filtcount = 1\<rparr>"
     "[1 \<mapsto> \<lparr>f_from = 0, f_to = 200, f_addr = Some [1], f_topics = [], f_lastlog = 0\<rparr>]"
     1 "\<lparr>f_from = 0, f_to = 200, f_addr = Some [1], f_topics = [], f_lastlog = 0\<rparr>" matches "[]"]
  by (simp add: matches_def)

text \<open>
  C8 as stated fails once the log array is cut below a cursor: with snapshot 0 taken
  before a log is added, a filter installed and polled (the log is delivered, the cursor
  is 1), \<^verbatim>\<open>RevertToSnapshot(0)\<close> empties the log array and leaves the cursor, and the next
  \<^verbatim>\<open>filterChanges\<close> panics on \<^verbatim>\<open>Logs[filt.lastlog:]\<close> instead of returning the empty list.
\<close>

theorem filterChanges_truncated_counterexample:
  "(let l = \<lparr>l_Address = [1], l_Topics = [], l_Data = [], l_BlockNumber = 100, l_TxHash = [],
               l_TxIndex = 0, l_BlockHash = [], l_Index = 0, l_Removed = False\<rparr>;
        s0 = State (NewChain (\<lambda>b. b) 0);
        s1 = AddLog (snd (Snapshot s0)) l;
        c1 = snd (newFilter ((NewChain (\<lambda>b. b) 0)\<lparr>State := s1\<rparr>) 0 200 (Some [1]) [])
    in fst (Snapshot s0) = 0
       \<and> fst (newFilter ((NewChain (\<lambda>b. b) 0)\<lparr>State := s1\<rparr>) 0 200 (Some [1]) []) = Inr 1
       \<and> (case filterChanges matches c1 1 of
             Inr (Inr out, c2) \<Rightarrow>
               out = [l2l l]
               \<and> (case RevertToSnapshot (State c2) 0 of
                     Inl p \<Rightarrow> False
                   | Inr s3 \<Rightarrow>
                       logs s3 = []
                       \<and> filterChanges matches (c2\<lparr>State := s3\<rparr>) 1 = Inl SliceBounds)
           | _ \<Rightarrow> False))"
  by (simp add: NewChain_def Snapshot_def AddLog_def newFilter_def filterChanges_def
      RevertToSnapshot_def Rollback_def Snapshot_Tree_def zero_State_def empty_Tree_def
      bindE_def Let_def matches_def word_sless_alt)

section \<open>Properties of parameter decoding\<close>

lemma length_marshal_loop: "length (marshal_loop mar unm xs ys) = length ys"
  by (induction mar unm xs ys rule: marshal_loop.induct) simp_all

lemma marshal_loop_nth:
  "length xs = length ys \<Longrightarrow> i < length ys \<Longrightarrow>
     marshal_loop mar unm xs ys ! i = snd (gross mar unm (xs ! i) (ys ! i))"
proof (induction xs ys arbitrary: i rule: list_induct2)
  case Nil
  then show ?case by simp
next
  case (Cons x xs y ys)
  then show ?case by (cases i) simp_all
qed

lemma gross_failure_keeps:
  assumes "\<forall>b y. fst (unm b y) \<noteq> None \<longrightarrow> snd (unm b y) = y"
    and "fst (gross mar unm x y) \<noteq> None"
  shows "snd (gross mar unm x y) = y"
  using assms by (auto simp: gross_def split: sum.splits)

lemma UnmarshalJSON_failure_keeps:
  "fst (UnmarshalJSON b buf) \<noteq> None \<Longrightarrow> snd (UnmarshalJSON b buf) = b"
  by (auto simp: UnmarshalJSON_def split: if_splits sum.splits)

text \<open>
  C10 (amended): when the number of parameters equals the number of targets, \<^verbatim>\<open>marshal\<close>
  returns no error, whatever \<^verbatim>\<open>gross\<close> returned for each parameter: a parameter that fails
  to decode is passed over and its target is left as the failed decode left it. That is
  the value it had (the zero value) for a decoder that does not write its target when it
  fails, as \<^verbatim>\<open>blocknum.UnmarshalJSON\<close>; a struct target may keep the fields decoded before
  the failure. A different number of parameters is the only error.
\<close>

theorem marshal_arity:
  "(length xs = length ys \<longrightarrow>
      fst (marshal mar unm xs ys) = None
      \<and> length (snd (marshal mar unm xs ys)) = length ys
      \<and> (\<forall>i < length ys. snd (marshal mar unm xs ys) ! i = snd (gross mar unm (xs ! i) (ys ! i))))
   \<and> (length xs \<noteq> length ys \<longrightarrow>
        marshal mar unm xs ys = (Some (ErrParams (length ys) (length xs)), ys))
   \<and> (length xs = length ys \<and> (\<forall>b y. fst (unm b y) \<noteq> None \<longrightarrow> snd (unm b y) = y) \<longrightarrow>
        (\<forall>i < length ys. fst (gross mar unm (xs ! i) (ys ! i)) \<noteq> None \<longrightarrow>
            snd (marshal mar unm xs ys) ! i = ys ! i))"
  by (auto simp: marshal_def marshal_loop_nth gross_failure_keeps length_marshal_loop)

theorem marshal_arity_witness:
  "marshal Inr (\<lambda>raw b. UnmarshalJSON b raw) [rawlatest, CHR 0x22 # ''bogus'' @ [CHR 0x22]] [0, 0]
     = (None, [- 2, 0])
   \<and> gross Inr (\<lambda>raw b. UnmarshalJSON b raw) (CHR 0x22 # ''bogus'' @ [CHR 0x22]) 0 = (Some ErrSyntax, 0)
   \<and> marshal Inr (\<lambda>raw b. UnmarshalJSON b raw) [rawlatest] [0, 0] = (Some (ErrParams 2 1), [0, 0])"
proof -
  have k: "\<forall>b y. fst (UnmarshalJSON y b) \<noteq> None \<longrightarrow> snd (UnmarshalJSON y b) = y"
    using UnmarshalJSON_failure_keeps by blast
  have g: "gross Inr (\<lambda>raw b. UnmarshalJSON b raw) (CHR 0x22 # ''bogus'' @ [CHR 0x22]) 0 = (Some ErrSyntax, 0)"
    by (simp add: gross_def UnmarshalJSON_def rawpending_def rawlatest_def rawearliest_def
        ParseInt_def digit_of_def)
  have l: "gross Inr (\<lambda>raw b. UnmarshalJSON b raw) rawlatest 0 = (None, - 2)"
    by (simp add: gross_def UnmarshalJSON_def rawpending_def rawlatest_def)
  show ?thesis
    using marshal_arity [of "[rawlatest, CHR 0x22 # ''bogus'' @ [CHR 0x22]]" "[0, 0 :: 64 word]" Inr "\<lambda>raw b. UnmarshalJSON b raw"]
      marshal_arity [of "[rawlatest]" "[0, 0 :: 64 word]" Inr "\<lambda>raw b. UnmarshalJSON b raw"] k g l
    by (simp add: marshal_def)
qed

text \<open>
  C10 as stated fails for a struct target: the request object of \<^verbatim>\<open>eth_newFilter\<close> with
  \<^verbatim>\<open>fromBlock\<close> "latest" and a \<^verbatim>\<open>toBlock\<close> that does not parse fails to decode, the error
  is dropped, and the target does not keep its zero value: \<^verbatim>\<open>FromBlock\<close> is -2 already.
  \<^verbatim>\<open>newFilter\<close> on these values installs a filter.
\<close>

theorem marshal_partial_counterexample:
  "gross Inr unmarshal_newFilterReq
       [(''fromBlock'', rawlatest), (''toBlock'', CHR 0x22 # ''0x10'' @ [CHR 0x22])]
       \<lparr>FromBlock = 0, ToBlock = 0, Address = None, Topics = []\<rparr>
     = (Some ErrSyntax, \<lparr>FromBlock = - 2, ToBlock = 0, Address = None, Topics = []\<rparr>)
   \<and> marshal Inr unmarshal_newFilterReq
       [[(''fromBlock'', rawlatest), (''toBlock'', CHR 0x22 # ''0x10'' @ [CHR 0x22])]]
       [\<lparr>FromBlock = 0, ToBlock = 0, Address = None, Topics = []\<rparr>]
     = (None, [\<lparr>FromBlock = - 2, ToBlock = 0, Address = None, Topics = []\<rparr>])
   \<and> \<lparr>FromBlock = - 2, ToBlock = 0, Address = None, Topics = []\<rparr>
       \<noteq> \<lparr>FromBlock = 0 :: blocknum, ToBlock = 0 :: blocknum, Address = None :: bytes option,
           Topics = [] :: bytes option list\<rparr>
   \<and> fst (newFilter (NewChain (\<lambda>b. b) 0) (- 2) 0 None []) = Inr 1"
  by (simp add: gross_def marshal_def UnmarshalJSON_def rawpending_def rawlatest_def
      rawearliest_def ParseInt_def digit_of_def newFilter_def NewChain_def Let_def word_sless_alt)

section \<open>Properties of the chain driver\<close>

text \<open>
  C9 (amended): \<^verbatim>\<open>AtBlock(-1)\<close> and \<^verbatim>\<open>AtBlock(pending)\<close> return the receiver (when they do
  not also denote the latest block, that is when pending is not 0, respectively not -2);
  \<^verbatim>\<open>AtBlock(-2)\<close> and \<^verbatim>\<open>AtBlock(pending - 1)\<close> return the receiver when
  \<^verbatim>\<open>block2snap\<close> has no entry for \<open>pending - 1\<close>, and otherwise the chain state at block
  \<open>pending - 1\<close> (nil if that block is not stored); for every other \<open>n\<close> with no entry in
  \<^verbatim>\<open>block2snap\<close> the result is nil.
\<close>

theorem AtBlock_cases:
  assumes "Pending (State c) = Some pb" and "b_Number pb = Some pending"
  shows "((n = - 1 \<or> n = pending) \<and> n \<noteq> pending - 1 \<and> n \<noteq> - 2 \<longrightarrow>
            AtBlock H cd c n = Inr Receiver)
    \<and> ((n = - 2 \<or> n = pending - 1) \<and> block2snap c (pending - 1) = None \<longrightarrow>
            AtBlock H cd c n = Inr Receiver)
    \<and> ((n = - 2 \<or> n = pending - 1) \<and> block2snap c (pending - 1) = Some snap \<longrightarrow>
            AtBlock H cd c n =
              (case Get (Blocks (State c)) (n2h H (pending - 1)) of
                 None \<Rightarrow> Inr Nil
               | Some buf \<Rightarrow>
                  (case UnmarshalMsg cd buf of
                     None \<Rightarrow> Inl UnmarshalFailure
                   | Some nb \<Rightarrow>
                       bindE (atSnap (State c) snap zero_State) (\<lambda>st.
                         Inr (Child \<lparr>State = st\<lparr>Pending := Some nb\<rparr>,
                                     block2snap = block2snap c,
                                     filters = None, filtcount = 0\<rparr>)))))
    \<and> (n \<noteq> - 1 \<and> n \<noteq> - 2 \<and> n \<noteq> pending \<and> n \<noteq> pending - 1 \<and> block2snap c n = None \<longrightarrow>
            AtBlock H cd c n = Inr Nil)"
  using assms by (auto simp: AtBlock_def bindE_def deref_def Let_def split: option.splits)

theorem AtBlock_cases_witness:
  "\<not> isl (Seal (\<lambda>b. b) \<lparr>js_hash = \<lambda>h. h, encode_tx = \<lambda>t. [], encode_rx = \<lambda>r. [],
         encode_block = \<lambda>b. [1], UnmarshalMsg = \<lambda>b. Some \<lparr>b_Number = Some 100, b_Hash = None,
           b_Parent = [], b_Miner = [], b_Timestamp = 0, b_GasLimit = 0, b_GasUsed = 0,
           b_Difficulty = None, b_TotalDifficulty = None, b_Transactions = []\<rparr>\<rparr> 5 (NewChain (\<lambda>b. b) 0))
   \<and> AtBlock (\<lambda>b. b) \<lparr>js_hash = \<lambda>h. h, encode_tx = \<lambda>t. [], encode_rx = \<lambda>r. [],
         encode_block = \<lambda>b. [1], UnmarshalMsg = \<lambda>b. Some \<lparr>b_Number = Some 100, b_Hash = None,
           b_Parent = [], b_Miner = [], b_Timestamp = 0, b_GasLimit = 0, b_GasUsed = 0,
           b_Difficulty = None, b_TotalDifficulty = None, b_Transactions = []\<rparr>\<rparr>
        (projr (Seal (\<lambda>b. b) \<lparr>js_hash = \<lambda>h. h, encode_tx = \<lambda>t. [], encode_rx = \<lambda>r. [],
         encode_block = \<lambda>b. [1], UnmarshalMsg = \<lambda>b. Some \<lparr>b_Number = Some 100, b_Hash = None,
           b_Parent = [], b_Miner = [], b_Timestamp = 0, b_GasLimit = 0, b_GasUsed = 0,
           b_Difficulty = None, b_TotalDifficulty = None, b_Transactions = []\<rparr>\<rparr> 5 (NewChain (\<lambda>b. b) 0))) (- 1)
       = Inr Receiver
   \<and> AtBlock (\<lambda>b. b) \<lparr>js_hash = \<lambda>h. h, encode_tx = \<lambda>t. [], encode_rx = \<lambda>r. [],
         encode_block = \<lambda>b. [1], UnmarshalMsg = \<lambda>b. Some \<lparr>b_Number = Some 100, b_Hash = None,
           b_Parent = [], b_Miner = [], b_Timestamp = 0, b_GasLimit = 0, b_GasUsed = 0,
           b_Difficulty = None, b_TotalDifficulty = None, b_Transactions = []\<rparr>\<rparr>
        (projr (Seal (\<lambda>b. b) \<lparr>js_hash = \<lambda>h. h, encode_tx = \<lambda>t. [], encode_rx = \<lambda>r. [],
         encode_block = \<lambda>b. [1], UnmarshalMsg = \<lambda>b. Some \<lparr>b_Number = Some 100, b_Hash = None,
           b_Parent = [], b_Miner = [], b_Timestamp = 0, b_GasLimit = 0, b_GasUsed = 0,
           b_Difficulty = None, b_TotalDifficulty = None, b_Transactions = []\<rparr>\<rparr> 5 (NewChain (\<lambda>b. b) 0))) 55
       = Inr Nil
   \<and> (case AtBlock (\<lambda>b. b) \<lparr>js_hash = \<lambda>h. h, encode_tx = \<lambda>t. [], encode_rx = \<lambda>r. [],
         encode_block = \<lambda>b. [1], UnmarshalMsg = \<lambda>b. Some \<lparr>b_Number = Some 100, b_Hash = None,
           b_Parent = [], b_Miner = [], b_Timestamp = 0, b_GasLimit = 0, b_GasUsed = 0,
           b_Difficulty = None, b_TotalDifficulty = None, b_Transactions = []\<rparr>\<rparr>
        (projr (Seal (\<lambda>b. b) \<lparr>js_hash = \<lambda>h. h, encode_tx = \<lambda>t. [], encode_rx = \<lambda>r. [],
         encode_block = \<lambda>b. [1], UnmarshalMsg = \<lambda>b. Some \<lparr>b_Number = Some 100, b_Hash = None,
           b_Parent = [], b_Miner = [], b_Timestamp = 0, b_GasLimit = 0, b_GasUsed = 0,
           b_Difficulty = None, b_TotalDifficulty = None, b_Transactions = []\<rparr>\<rparr> 5 (NewChain (\<lambda>b. b) 0))) (- 2) of
         Inr (Child cc) \<Rightarrow> map_option b_Number (Pending (State cc)) = Some (Some 100)
       | _ \<Rightarrow> False)"
proof -
  define cd where "cd = \<lparr>js_hash = \<lambda>h :: bytes. h, encode_tx = \<lambda>t :: Transaction. ([] :: bytes),
         encode_rx = \<lambda>r :: Receipt. ([] :: bytes),
         encode_block = \<lambda>b :: Block. ([1] :: bytes), UnmarshalMsg = \<lambda>b :: bytes. Some \<lparr>b_Number = Some 100, b_Hash = None,
           b_Parent = [], b_Miner = [], b_Timestamp = 0, b_GasLimit = 0, b_GasUsed = 0,
           b_Difficulty = None, b_TotalDifficulty = None, b_Transactions = []\<rparr>\<rparr>"
  define c1 where "c1 = projr (Seal (\<lambda>b. b) cd 5 (NewChain (\<lambda>b. b) 0))"
  have s: "\<not> isl (Seal (\<lambda>b. b) cd 5 (NewChain (\<lambda>b. b) 0))"
    by (simp add: Seal_def NewChain_def bindE_def deref_def Let_def Snapshot_def split: prod.splits)
  have p: "Pending (State c1) = Some \<lparr>b_Number = Some 101, b_Hash = Some (n2h (\<lambda>b. b) 101),
      b_Parent = n2h (\<lambda>b. b) 100, b_Miner = replicate 20 0, b_Timestamp = 5,
      b_GasLimit = defaultGasLimit, b_GasUsed = 0, b_Difficulty = Some 0,
      b_TotalDifficulty = Some 0, b_Transactions = []\<rparr>"
    by (simp add: c1_def Seal_def NewChain_def bindE_def deref_def Let_def Snapshot_def
        defaultBlock_def split: prod.splits)
  have m: "block2snap c1 100 = Some 0" "block2snap c1 55 = None"
    by (simp_all add: c1_def Seal_def NewChain_def bindE_def deref_def Let_def Snapshot_def
        defaultBlock_def zero_State_def split: prod.splits)
  have g: "Get (Blocks (State c1)) (n2h (\<lambda>b. b) 100) = Some [1]"
    by (simp add: c1_def Seal_def NewChain_def bindE_def deref_def Let_def Snapshot_def
        defaultBlock_def cd_def Get_Insert split: prod.splits)
  have "\<exists>st. atSnap (State c1) 0 zero_State = Inr st"
    by (simp add: c1_def Seal_def NewChain_def bindE_def deref_def Let_def Snapshot_def
        defaultBlock_def atSnap_def zero_State_def split: prod.splits)
  then obtain st where a: "atSnap (State c1) 0 zero_State = Inr st"
    by blast
  have r1: "AtBlock (\<lambda>b. b) cd c1 (- 1) = Inr Receiver"
    using AtBlock_cases [OF p, of 101 "- 1" "\<lambda>b. b" cd 0] by simp
  have r2: "AtBlock (\<lambda>b. b) cd c1 55 = Inr Nil"
    using AtBlock_cases [OF p, of 101 55 "\<lambda>b. b" cd 0] m by simp
  have r3: "case AtBlock (\<lambda>b. b) cd c1 (- 2) of
         Inr (Child cc) \<Rightarrow> map_option b_Number (Pending (State cc)) = Some (Some 100)
       | _ \<Rightarrow> False"
    using AtBlock_cases [OF p, of 101 "- 2" "\<lambda>b. b" cd 0] m g a
    by (simp add: cd_def bindE_def)
  show ?thesis
    using s r1 r2 r3 unfolding c1_def cd_def by simp
qed

text \<open>
  C9 as stated fails on a new chain (pending block 100, nothing sealed): \<^verbatim>\<open>AtBlock(-2)\<close>
  returns the receiver, not a state at block 99, and \<^verbatim>\<open>AtBlock(99)\<close>, a number with no entry
  in \<^verbatim>\<open>block2snap\<close>, returns the receiver, not nil.
\<close>

theorem AtBlock_latest_counterexample:
  "map_option b_Number (Pending (State (NewChain (\<lambda>b. b) 0))) = Some (Some 100)
   \<and> block2snap (NewChain (\<lambda>b. b) 0) 99 = None
   \<and> AtBlock (\<lambda>b. b) \<lparr>js_hash = \<lambda>h. h, encode_tx = \<lambda>t. [], encode_rx = \<lambda>r. [],
         encode_block = \<lambda>b. [], UnmarshalMsg = \<lambda>b. None\<rparr> (NewChain (\<lambda>b. b) 0) (- 2) = Inr Receiver
   \<and> AtBlock (\<lambda>b. b) \<lparr>js_hash = \<lambda>h. h, encode_tx = \<lambda>t. [], encode_rx = \<lambda>r. [],
         encode_block = \<lambda>b. [], UnmarshalMsg = \<lambda>b. None\<rparr> (NewChain (\<lambda>b. b) 0) 99 = Inr Receiver
   \<and> AtBlock (\<lambda>b. b) \<lparr>js_hash = \<lambda>h. h, encode_tx = \<lambda>t. [], encode_rx = \<lambda>r. [],
         encode_block = \<lambda>b. [], UnmarshalMsg = \<lambda>b. None\<rparr> (NewChain (\<lambda>b. b) 0) 99 \<noteq> Inr Nil"
  by (simp add: AtBlock_def NewChain_def bindE_def deref_def defaultBlock_def Let_def)



lemma take_self_ex: "\<exists>n. xs = take n xs"
  by (rule exI [of _ "length xs"]) simp

lemma bindE_Inr_iff: "bindE m f = Inr y \<longleftrightarrow> (\<exists>x. m = Inr x \<and> f x = Inr y)"
  by (cases m) (simp_all add: bindE_def)

lemma SubBalance_frame:
  "SubBalance s a v = Inr s' \<Longrightarrow> \<exists>t. s' = s\<lparr>Accounts := t\<rparr>"
  by (auto simp: SubBalance_def Let_def bindE_Inr_iff split: prod.splits)

lemma AddBalance_frame:
  "AddBalance s a v = Inr s' \<Longrightarrow> \<exists>t. s' = s\<lparr>Accounts := t\<rparr>"
  by (auto simp: AddBalance_def Let_def bindE_Inr_iff split: prod.splits)

lemma SetNonce_frame:
  "SetNonce s a n = Inr s' \<Longrightarrow> \<exists>t. s' = s\<lparr>Accounts := t\<rparr>"
  by (auto simp: SetNonce_def Let_def split: prod.splits if_splits)

lemma dotransfer_frame:
  "dotransfer s a b v = Inr s' \<Longrightarrow> \<exists>t. s' = s\<lparr>Accounts := t\<rparr>"
  by (auto simp: dotransfer_def Let_def bindE_Inr_iff split: prod.splits if_splits intro: exI [of _ "Accounts s"])

lemma Suicide_only_Accounts: "\<exists>t. snd (Suicide s a) = s\<lparr>Accounts := t\<rparr>"
  by (auto simp: Suicide_def Let_def split: prod.splits intro: exI [of _ "Accounts s"])

lemma Rollback_journal:
  "Rollback t h = Inr t' \<Longrightarrow> journal t' = take (nat h) (journal t)"
  by (auto simp: Rollback_def split: if_splits)

lemma RevertToSnapshot_frame:
  assumes "RevertToSnapshot s v = Inr s'"
  shows "Pending s' = Pending s
    \<and> (\<exists>n. journal (Transactions s') = take n (journal (Transactions s)))
    \<and> (\<exists>n. journal (Receipts s') = take n (journal (Receipts s)))"
  using assms
  by (auto simp: RevertToSnapshot_def Let_def bindE_Inr_iff split: if_splits dest!: Rollback_journal)

lemma apply_op_frame:
  assumes "apply_op H s x = Inr s'"
  shows "Pending s' = Pending s
    \<and> (\<exists>n. journal (Transactions s') = take n (journal (Transactions s)))
    \<and> (\<exists>n. journal (Receipts s') = take n (journal (Receipts s)))"
proof -
  have same: "Pending s' = Pending s
    \<and> (\<exists>n. journal (Transactions s') = take n (journal (Transactions s)))
    \<and> (\<exists>n. journal (Receipts s') = take n (journal (Receipts s)))"
    if "Pending s' = Pending s" "Transactions s' = Transactions s" "Receipts s' = Receipts s"
    using that by (simp add: take_self_ex)
  show ?thesis
  proof (cases x)
    case (OpRevertToSnapshot v)
    then show ?thesis using assms RevertToSnapshot_frame by simp
  next
    case (OpSubBalance a v)
    then show ?thesis using assms SubBalance_frame [of s a v s'] by (intro same) auto
  next
    case (OpAddBalance a v)
    then show ?thesis using assms AddBalance_frame [of s a v s'] by (intro same) auto
  next
    case (OpSetNonce a n)
    then show ?thesis using assms SetNonce_frame [of s a n s'] by (intro same) auto
  next
    case (OpTransfer a b v)
    then show ?thesis using assms dotransfer_frame [of s a b v s'] by (intro same) auto
  next
    case (OpSuicide a)
    then show ?thesis using assms Suicide_only_Accounts [of s a] by (intro same) auto
  next
    case (OpSetState a k v)
    then show ?thesis using assms by (intro same) (auto simp: SetState_def Let_def)
  qed (use assms in \<open>auto simp: CreateAccount_def SetCode_def AddRefund_def AddLog_def
        AddPreimage_def Snapshot_def Let_def take_self_ex\<close>)
qed

lemma run_ops_frame:
  "run_ops H s ops = Inr s' \<Longrightarrow>
     Pending s' = Pending s
     \<and> (\<exists>n. journal (Transactions s') = take n (journal (Transactions s)))
     \<and> (\<exists>n. journal (Receipts s') = take n (journal (Receipts s)))"
proof (induction ops arbitrary: s)
  case Nil
  then show ?case by (simp add: take_self_ex)
next
  case (Cons x xs)
  then obtain s1 where 1: "apply_op H s x = Inr s1" and 2: "run_ops H s1 xs = Inr s'"
    by (auto simp: bindE_Inr_iff)
  from apply_op_frame [OF 1] Cons.IH [OF 2] show ?case
    by (auto simp: take_take)
qed

text \<open>
  C3: when the EVM call or create that \<^verbatim>\<open>Mine\<close> performs returns an error, \<^verbatim>\<open>Mine\<close> returns
  that error and changes nothing itself: the chain is left in the state the EVM run left,
  the transaction is untouched, the pending block (its transaction list and gas used) is
  the one from before the call, and no journal entry is pushed on the Transactions or the
  Receipts tree (the EVM's own reverts can only roll them back).
\<close>

theorem Mine_evm_error:
  assumes "tx_From tx = Some sender"
    and "context H c sender = Inr ctx"
    and "(case tx_To tx of
            None \<Rightarrow> vm ctx (State c) (EvmCreate sender (tx_Input tx) (tx_Gas tx) (tx_Value tx))
          | Some dst \<Rightarrow> vm ctx (State c) (EvmCall sender dst (tx_Input tx) (tx_Gas tx) (tx_Value tx)))
         = (ops, r)"
    and "run_ops H (State c) ops = Inr s"
    and "r_err r = Some err"
  shows "Mine H cd vm c tx =
           Inr (\<lparr>m_ret = r_ret r, m_h = zerohash, m_err = Some err\<rparr>, c\<lparr>State := s\<rparr>, tx)
    \<and> Pending s = Pending (State c)
    \<and> (\<exists>n. journal (Transactions s) = take n (journal (Transactions (State c))))
    \<and> (\<exists>n. journal (Receipts s) = take n (journal (Receipts (State c))))"
proof -
  have "Mine H cd vm c tx =
           Inr (\<lparr>m_ret = r_ret r, m_h = zerohash, m_err = Some err\<rparr>, c\<lparr>State := s\<rparr>, tx)"
    using assms by (simp add: Mine_def bindE_def deref_def Let_def)
  then show ?thesis
    using run_ops_frame [OF assms(4)] by simp
qed

theorem Mine_evm_error_witness:
  "(case Mine (\<lambda>b. 0 # b)
       \<lparr>js_hash = \<lambda>h. h, encode_tx = \<lambda>t. [1], encode_rx = \<lambda>r. [2], encode_block = \<lambda>b. [3],
         UnmarshalMsg = \<lambda>b. None\<rparr>
       (\<lambda>ctx s call. ([OpSnapshot, OpAddLog \<lparr>l_Address = [1], l_Topics = [], l_Data = [],
            l_BlockNumber = 100, l_TxHash = [], l_TxIndex = 0, l_BlockHash = [], l_Index = 0,
            l_Removed = False\<rparr>, OpRevertToSnapshot 0],
          \<lparr>r_ret = [0xfe], r_addr = [], r_gas = 0, r_err = Some (ErrEvm ''revert'')\<rparr>))
       (NewChain (\<lambda>b. 0 # b) 0)
       \<lparr>tx_From = Some [1], tx_To = Some [2], tx_Gas = 1000, tx_GasPrice = 0, tx_Value = 0,
         tx_Input = [], tx_Hash = [], tx_TxIndex = None, tx_Block = [], tx_BlockNumber = 0\<rparr> of
      Inl p \<Rightarrow> False
    | Inr (r, c', t) \<Rightarrow>
        m_err r = Some (ErrEvm ''revert'')
        \<and> Pending (State c') = Pending (State (NewChain (\<lambda>b. 0 # b) 0))
        \<and> logs (State c') = []
        \<and> journal (Transactions (State c')) = []
        \<and> journal (Receipts (State c')) = [])"
proof -
  define H :: hashfn where "H = (\<lambda>b. 0 # b)"
  define c where "c = NewChain H 0"
  define ops where "ops = [OpSnapshot, OpAddLog \<lparr>l_Address = [1], l_Topics = [], l_Data = [],
            l_BlockNumber = 100, l_TxHash = [], l_TxIndex = 0, l_BlockHash = [], l_Index = 0,
            l_Removed = False\<rparr>, OpRevertToSnapshot 0]"
  define r where "r = \<lparr>r_ret = [0xfe], r_addr = [], r_gas = 0, r_err = Some (ErrEvm ''revert'')\<rparr>"
  define vm :: evm where "vm = (\<lambda>ctx s call. (ops, r))"
  define tx where "tx = \<lparr>tx_From = Some [1], tx_To = Some [2], tx_Gas = 1000, tx_GasPrice = 0, tx_Value = 0,
         tx_Input = [], tx_Hash = [], tx_TxIndex = None, tx_Block = [], tx_BlockNumber = 0\<rparr>"
  have "\<exists>ctx. context H c [1] = Inr ctx"
    by (simp add: context_def c_def NewChain_def bindE_def deref_def)
  then obtain ctx where cx: "context H c [1] = Inr ctx" by blast
  have "\<exists>s. run_ops H (State c) ops = Inr s \<and> logs s = []
      \<and> journal (Transactions s) = [] \<and> journal (Receipts s) = []"
    by (simp add: ops_def c_def NewChain_def bindE_def Snapshot_def AddLog_def
        RevertToSnapshot_def Rollback_def Snapshot_Tree_def zero_State_def empty_Tree_def Let_def)
  then obtain s where run: "run_ops H (State c) ops = Inr s" and l: "logs s = []"
      "journal (Transactions s) = []" "journal (Receipts s) = []" by blast
  have f: "tx_From tx = Some [1]" and e: "r_err r = Some (ErrEvm ''revert'')"
    by (simp_all add: tx_def r_def)
  have v: "(case tx_To tx of
            None \<Rightarrow> vm ctx (State c) (EvmCreate [1] (tx_Input tx) (tx_Gas tx) (tx_Value tx))
          | Some dst \<Rightarrow> vm ctx (State c) (EvmCall [1] dst (tx_Input tx) (tx_Gas tx) (tx_Value tx)))
         = (ops, r)"
    by (simp add: vm_def tx_def)
  show ?thesis
    using Mine_evm_error [where vm = vm and cd = "\<lparr>js_hash = \<lambda>h. h, encode_tx = \<lambda>t. [1], encode_rx = \<lambda>r. [2], encode_block = \<lambda>b. [3],
         UnmarshalMsg = \<lambda>b. None\<rparr>", OF f cx v run e] l
    unfolding H_def c_def ops_def r_def vm_def tx_def by simp
qed

text \<open>
  C2 (amended): for every transaction that \<^verbatim>\<open>Mine\<close> processes successfully, the hash it
  assigns and returns is the Keccak-256 of the Keccak-256 of the little-endian 8-byte
  encoding of \<open>block_number | (tx_index << 48)\<close> (\<^verbatim>\<open>n2h\<close> hashes once, \<^verbatim>\<open>Mine\<close> hashes its
  result again), where \<open>tx_index\<close> is the length of the pending block's transaction list;
  the transaction carries that hash and index, and the hash is appended to the list.
\<close>

theorem Mine_hash:
  assumes "Mine H cd vm c tx = Inr (ret, c', tx')"
    and "m_err ret = None"
    and "Pending (State c) = Some pb"
    and "b_Number pb = Some number"
  shows "m_h ret = H (H (le_put_uint64 (number OR push_bit 48 (of_nat (length (b_Transactions pb))))))
    \<and> m_h ret = H (n2h H (number OR push_bit 48 (of_nat (length (b_Transactions pb)))))
    \<and> tx_Hash tx' = m_h ret
    \<and> tx_TxIndex tx' = Some (of_nat (length (b_Transactions pb)))
    \<and> map_option b_Transactions (Pending (State c')) = Some (b_Transactions pb @ [js_hash cd (m_h ret)])"
proof -
  from assms(1) obtain sender ctx where
    f: "tx_From tx = Some sender" and cx: "context H c sender = Inr ctx"
    by (auto simp: Mine_def Let_def bindE_Inr_iff deref_def split: option.splits)
  obtain ops r where v: "(case tx_To tx of
            None \<Rightarrow> vm ctx (State c) (EvmCreate sender (tx_Input tx) (tx_Gas tx) (tx_Value tx))
          | Some dst \<Rightarrow> vm ctx (State c) (EvmCall sender dst (tx_Input tx) (tx_Gas tx) (tx_Value tx)))
         = (ops, r)"
    by (cases "case tx_To tx of
            None \<Rightarrow> vm ctx (State c) (EvmCreate sender (tx_Input tx) (tx_Gas tx) (tx_Value tx))
          | Some dst \<Rightarrow> vm ctx (State c) (EvmCall sender dst (tx_Input tx) (tx_Gas tx) (tx_Value tx))") auto
  from assms(1) f cx v obtain s where run: "run_ops H (State c) ops = Inr s"
    by (cases "run_ops H (State c) ops") (auto simp: Mine_def Let_def bindE_def deref_def)
  have p: "Pending s = Some pb"
    using run_ops_frame [OF run] assms(3) by simp
  show ?thesis
    using assms f cx v run p
    by (auto simp: Mine_def Let_def bindE_def deref_def n2h_def split: option.splits if_splits)
qed

theorem Mine_hash_witness:
  "(case Mine (\<lambda>b. 0 # b)
       \<lparr>js_hash = \<lambda>h. h, encode_tx = \<lambda>t. [1], encode_rx = \<lambda>r. [2], encode_block = \<lambda>b. [3],
         UnmarshalMsg = \<lambda>b. None\<rparr>
       (\<lambda>ctx s call. ([], \<lparr>r_ret = [], r_addr = [], r_gas = 400, r_err = None\<rparr>))
       (NewChain (\<lambda>b. 0 # b) 0)
       \<lparr>tx_From = Some [1], tx_To = Some [2], tx_Gas = 1000, tx_GasPrice = 0, tx_Value = 0,
         tx_Input = [], tx_Hash = [], tx_TxIndex = None, tx_Block = [], tx_BlockNumber = 0\<rparr> of
      Inl p \<Rightarrow> False
    | Inr (r, c', t) \<Rightarrow>
        m_err r = None
        \<and> m_h r = 0 # 0 # le_put_uint64 100
        \<and> tx_Hash t = 0 # 0 # le_put_uint64 100
        \<and> tx_TxIndex t = Some 0
        \<and> map_option b_Transactions (Pending (State c')) = Some [0 # 0 # le_put_uint64 100]
        \<and> map_option b_GasUsed (Pending (State c')) = Some 600)"
proof -
  define H :: hashfn where "H = (\<lambda>b. 0 # b)"
  define cd where "cd = \<lparr>js_hash = \<lambda>h :: bytes. h, encode_tx = \<lambda>t :: Transaction. [1 :: byte],
      encode_rx = \<lambda>r :: Receipt. [2 :: byte], encode_block = \<lambda>b :: Block. [3 :: byte],
      UnmarshalMsg = \<lambda>b :: bytes. (None :: Block option)\<rparr>"
  define vm :: evm where "vm = (\<lambda>ctx s call. ([], \<lparr>r_ret = [], r_addr = [], r_gas = 400, r_err = None\<rparr>))"
  define tx where "tx = \<lparr>tx_From = Some [1], tx_To = Some [2], tx_Gas = 1000, tx_GasPrice = 0, tx_Value = 0,
         tx_Input = [], tx_Hash = [], tx_TxIndex = None, tx_Block = [], tx_BlockNumber = 0\<rparr>"
  have "\<exists>ret c' tx'. Mine H cd vm (NewChain H 0) tx = Inr (ret, c', tx') \<and> m_err ret = None
      \<and> map_option b_GasUsed (Pending (State c')) = Some 600"
    by (simp add: Mine_def context_def NewChain_def bindE_def deref_def Let_def vm_def tx_def
        zero_State_def)
  then obtain ret c' tx' where m: "Mine H cd vm (NewChain H 0) tx = Inr (ret, c', tx')"
    and e: "m_err ret = None" and g: "map_option b_GasUsed (Pending (State c')) = Some 600"
    by blast
  have p: "Pending (State (NewChain H 0)) = Some \<lparr>b_Number = Some 100, b_Hash = Some (n2h H 100),
              b_Parent = zerohash, b_Miner = replicate 20 0, b_Timestamp = 0,
              b_GasLimit = defaultGasLimit, b_GasUsed = 0,
              b_Difficulty = Some defaultDifficulty, b_TotalDifficulty = None,
              b_Transactions = []\<rparr>"
    by (simp add: NewChain_def defaultBlock_def)
  show ?thesis
    using Mine_hash [OF m e p, of 100] e g
    unfolding H_def cd_def vm_def tx_def by (auto simp: m [unfolded H_def cd_def vm_def tx_def])
qed

text \<open>
  C2 as stated (a single hash) fails: with any hash function whose output is not a fixed
  point of it, here one that prepends a zero byte, the hash that \<^verbatim>\<open>Mine\<close> returns for the
  first transaction of block 100 differs from the hash of the encoding of \<open>100 | (0 << 48)\<close>.
\<close>

theorem Mine_hash_counterexample:
  "(case Mine (\<lambda>b. 0 # b)
       \<lparr>js_hash = \<lambda>h. h, encode_tx = \<lambda>t. [1], encode_rx = \<lambda>r. [2], encode_block = \<lambda>b. [3],
         UnmarshalMsg = \<lambda>b. None\<rparr>
       (\<lambda>ctx s call. ([], \<lparr>r_ret = [], r_addr = [], r_gas = 400, r_err = None\<rparr>))
       (NewChain (\<lambda>b. 0 # b) 0)
       \<lparr>tx_From = Some [1], tx_To = Some [2], tx_Gas = 1000, tx_GasPrice = 0, tx_Value = 0,
         tx_Input = [], tx_Hash = [], tx_TxIndex = None, tx_Block = [], tx_BlockNumber = 0\<rparr> of
      Inl p \<Rightarrow> False
    | Inr (r, c', t) \<Rightarrow>
        m_err r = None
        \<and> m_h r \<noteq> (\<lambda>b. 0 # b) (le_put_uint64 (100 OR push_bit 48 0)))"
  by (simp add: Mine_def context_def NewChain_def bindE_def deref_def Let_def zero_State_def
      defaultBlock_def n2h_def)


end
